theory Spec2Isabelle
  imports Complex_Main
begin

section \<open>JavaScript numbers and the conversion \<open>Number\<close> of a version segment\<close>

text \<open>
  The updater (the main-process module of the desktop client) compares versions with
  \<open>isNewerVersion\<close>, which splits both strings on \<open>'.'\<close> and converts every segment
  with JavaScript's \<open>Number\<close>. A JavaScript number is an IEEE double: \<open>NaN\<close>, the two
  infinities, or a finite value, kept here as the rational it denotes (the two zeros are
  one value: the comparator never tells them apart, \<open>-0 || 0\<close> being \<open>0\<close>).
  Strings are sequences of code units below 256.
\<close>

datatype jsnum = NaN | NegInf | Fin rat | PosInf

fun bitlen :: "nat \<Rightarrow> nat" where
  "bitlen n = (if n = 0 then 0 else Suc (bitlen (n div 2)))"

declare bitlen.simps [simp del]

definition pow2 :: "int \<Rightarrow> rat" where
  "pow2 e = (if 0 \<le> e then 2 ^ nat e else 1 / 2 ^ nat (- e))"

definition pow10 :: "int \<Rightarrow> rat" where
  "pow10 e = (if 0 \<le> e then 10 ^ nat e else 1 / 10 ^ nat (- e))"

definition ilog2 :: "rat \<Rightarrow> int" where
  \<comment> \<open>the integer part of the binary logarithm of a positive rational\<close>
  "ilog2 a =
     (let k = int (bitlen (nat (fst (quotient_of a)))) - int (bitlen (nat (snd (quotient_of a))))
      in if pow2 k \<le> a then k else k - 1)"

definition roundDouble :: "rat \<Rightarrow> jsnum" where
  \<comment> \<open>the Number value for a mathematical value: round to nearest, ties to even, with a
      53-bit significand, exponents from -1022 to 1023; integers up to \<open>2^53\<close> are exact\<close>
  "roundDouble q =
     (if of_int \<lfloor>q\<rfloor> = q \<and> \<bar>q\<bar> \<le> 2 ^ 53 then Fin q
      else
        let a = \<bar>q\<bar>;
            e = max (ilog2 a) (- 1022);
            ulp = pow2 (e - 52);
            m = a / ulp;
            f = \<lfloor>m\<rfloor>;
            d = m - of_int f;
            f' = (if 1 / 2 < d \<or> (d = 1 / 2 \<and> odd f) then f + 1 else f);
            v = of_int f' * ulp
        in if pow2 1024 \<le> v then (if 0 < q then PosInf else NegInf)
           else Fin (if 0 < q then v else - v))"

fun jsneg :: "jsnum \<Rightarrow> jsnum" where
  "jsneg NaN = NaN"
| "jsneg NegInf = PosInf"
| "jsneg PosInf = NegInf"
| "jsneg (Fin q) = Fin (- q)"

definition isWS :: "char \<Rightarrow> bool" where
  \<comment> \<open>white space and line terminators: TAB, LF, VT, FF, CR, SP, NBSP\<close>
  "isWS c = ((of_char c :: nat) \<in> {9, 10, 11, 12, 13, 32, 160})"

definition trimWS :: "string \<Rightarrow> string" where
  "trimWS s = rev (dropWhile isWS (rev (dropWhile isWS s)))"

definition isDigit :: "char \<Rightarrow> bool" where
  "isDigit c = (48 \<le> (of_char c :: nat) \<and> (of_char c :: nat) \<le> 57)"

definition digitVal :: "char \<Rightarrow> nat" where
  "digitVal c = of_char c - 48"

definition decNat :: "string \<Rightarrow> nat" where
  "decNat s = foldl (\<lambda>a c. a * 10 + digitVal c) 0 s"

definition radixDigit :: "char \<Rightarrow> nat option" where
  "radixDigit c =
     (let n = of_char c :: nat in
      if 48 \<le> n \<and> n \<le> 57 then Some (n - 48)
      else if 97 \<le> n \<and> n \<le> 102 then Some (n - 87)
      else if 65 \<le> n \<and> n \<le> 70 then Some (n - 55)
      else None)"

fun radixNat :: "nat \<Rightarrow> nat \<Rightarrow> string \<Rightarrow> nat option" where
  "radixNat b acc [] = Some acc"
| "radixNat b acc (c # cs) =
     (case radixDigit c of
        None \<Rightarrow> None
      | Some d \<Rightarrow> if d < b then radixNat b (acc * b + d) cs else None)"

definition nonDecimal :: "nat \<Rightarrow> string \<Rightarrow> jsnum" where
  \<comment> \<open>the digits after a prefix \<open>0x\<close>, \<open>0o\<close> or \<open>0b\<close>; at least one is required\<close>
  "nonDecimal b ds =
     (if ds = [] then NaN
      else case radixNat b 0 ds of None \<Rightarrow> NaN | Some n \<Rightarrow> roundDouble (of_nat n))"

definition strExponent :: "string \<Rightarrow> int option" where
  \<comment> \<open>what follows \<open>e\<close> or \<open>E\<close>: an optional sign and at least one digit\<close>
  "strExponent x =
     (case x of
        [] \<Rightarrow> None
      | c # y \<Rightarrow>
          if c = CHR ''+'' then (if y \<noteq> [] \<and> list_all isDigit y then Some (int (decNat y)) else None)
          else if c = CHR ''-'' then (if y \<noteq> [] \<and> list_all isDigit y then Some (- int (decNat y)) else None)
          else if list_all isDigit x then Some (int (decNat x))
          else None)"

definition strUnsignedDecimal :: "string \<Rightarrow> jsnum" where
  \<comment> \<open>\<open>Infinity\<close>, or digits with an optional exponent (a segment holds no decimal point)\<close>
  "strUnsignedDecimal u =
     (if u = ''Infinity'' then PosInf
      else
        let ds = takeWhile isDigit u; r = dropWhile isDigit u in
        if ds = [] then NaN
        else case r of
          [] \<Rightarrow> roundDouble (of_nat (decNat ds))
        | c # x \<Rightarrow>
            if c = CHR ''e'' \<or> c = CHR ''E'' then
              (case strExponent x of
                 None \<Rightarrow> NaN
               | Some k \<Rightarrow> roundDouble (of_nat (decNat ds) * pow10 k))
            else NaN)"

definition strDecimal :: "string \<Rightarrow> jsnum" where
  "strDecimal t =
     (case t of
        [] \<Rightarrow> NaN
      | c # u \<Rightarrow>
          if c = CHR ''+'' then strUnsignedDecimal u
          else if c = CHR ''-'' then jsneg (strUnsignedDecimal u)
          else strUnsignedDecimal t)"

definition Number :: "string \<Rightarrow> jsnum" where
  \<comment> \<open>\<open>Number(s)\<close> for a string \<open>s\<close> without \<open>'.'\<close>, as \<open>split('.')\<close> produces them\<close>
  "Number s =
     (let t = trimWS s in
      if t = [] then Fin 0
      else case t of
        a # b # ds \<Rightarrow>
          if a = CHR ''0'' \<and> (b = CHR ''x'' \<or> b = CHR ''X'') then nonDecimal 16 ds
          else if a = CHR ''0'' \<and> (b = CHR ''o'' \<or> b = CHR ''O'') then nonDecimal 8 ds
          else if a = CHR ''0'' \<and> (b = CHR ''b'' \<or> b = CHR ''B'') then nonDecimal 2 ds
          else strDecimal t
      | _ \<Rightarrow> strDecimal t)"

section \<open>The version comparator\<close>

text \<open>
  \<^verbatim>\<open>
  function isNewerVersion(latest: string, current: string): boolean {
      const latestParts = latest.split('.').map(Number);
      const currentParts = current.split('.').map(Number);
      for (let i = 0; i < Math.max(latestParts.length, currentParts.length); i++) {
          const l = latestParts[i] || 0;
          const c = currentParts[i] || 0;
          if (l > c) return true;
          if (l < c) return false;
      }
      return false;
  }
  \<close>
\<close>

fun splitDot :: "string \<Rightarrow> string list" where
  \<comment> \<open>\<open>s.split('.')\<close>: always at least one segment, empty segments kept\<close>
  "splitDot [] = [[]]"
| "splitDot (c # cs) =
     (if c = CHR ''.'' then [] # splitDot cs
      else case splitDot cs of [] \<Rightarrow> [[c]] | s # ss \<Rightarrow> (c # s) # ss)"

definition at_index :: "'a list \<Rightarrow> nat \<Rightarrow> 'a option" where
  \<comment> \<open>\<open>xs[i]\<close>: \<open>undefined\<close> (here \<open>None\<close>) out of range\<close>
  "at_index xs i = (if i < length xs then Some (xs ! i) else None)"

fun orZero :: "jsnum option \<Rightarrow> jsnum" where
  \<comment> \<open>\<open>x || 0\<close>: \<open>undefined\<close>, \<open>NaN\<close> and zero are falsy\<close>
  "orZero None = Fin 0"
| "orZero (Some NaN) = Fin 0"
| "orZero (Some (Fin q)) = (if q = 0 then Fin 0 else Fin q)"
| "orZero (Some x) = x"

fun js_gt :: "jsnum \<Rightarrow> jsnum \<Rightarrow> bool" where
  \<comment> \<open>\<open>l > c\<close> on numbers: false whenever one side is \<open>NaN\<close>\<close>
  "js_gt NaN _ = False"
| "js_gt _ NaN = False"
| "js_gt NegInf _ = False"
| "js_gt _ PosInf = False"
| "js_gt PosInf _ = True"
| "js_gt (Fin a) NegInf = True"
| "js_gt (Fin a) (Fin b) = (b < a)"

definition js_lt :: "jsnum \<Rightarrow> jsnum \<Rightarrow> bool" where
  "js_lt l c = js_gt c l"

fun js_mul :: "jsnum \<Rightarrow> jsnum \<Rightarrow> jsnum" where
  \<comment> \<open>\<open>a * b\<close> on numbers: the exact product rounded to a double; \<open>NaN\<close> when a factor
      is \<open>NaN\<close> or an infinity meets zero\<close>
  "js_mul NaN _ = NaN"
| "js_mul _ NaN = NaN"
| "js_mul (Fin a) (Fin b) = roundDouble (a * b)"
| "js_mul (Fin a) PosInf = (if a = 0 then NaN else if 0 < a then PosInf else NegInf)"
| "js_mul (Fin a) NegInf = (if a = 0 then NaN else if 0 < a then NegInf else PosInf)"
| "js_mul PosInf (Fin b) = (if b = 0 then NaN else if 0 < b then PosInf else NegInf)"
| "js_mul NegInf (Fin b) = (if b = 0 then NaN else if 0 < b then NegInf else PosInf)"
| "js_mul PosInf PosInf = PosInf"
| "js_mul NegInf NegInf = PosInf"
| "js_mul PosInf NegInf = NegInf"
| "js_mul NegInf PosInf = NegInf"

function isNewer_loop :: "jsnum list \<Rightarrow> jsnum list \<Rightarrow> nat \<Rightarrow> bool" where
  "isNewer_loop latestParts currentParts i =
     (if i < max (length latestParts) (length currentParts) then
        (let l = orZero (at_index latestParts i);
             c = orZero (at_index currentParts i)
         in if js_gt l c then True
            else if js_lt l c then False
            else isNewer_loop latestParts currentParts (Suc i))
      else False)"
  by pat_completeness auto
termination
  by (relation "measure (\<lambda>(ls, cs, i). max (length ls) (length cs) - i)") auto

declare isNewer_loop.simps [simp del]

definition isNewerVersion :: "string \<Rightarrow> string \<Rightarrow> bool" where
  "isNewerVersion latest current =
     isNewer_loop (map Number (splitDot latest)) (map Number (splitDot current)) 0"

text \<open>
  The comparison in the words of the specification: each segment a non-negative integer,
  a missing segment 0, left to right up to the longer length, decided at the first
  segment that differs.
\<close>

fun spec_isNewer :: "nat list \<Rightarrow> nat list \<Rightarrow> bool" where
  "spec_isNewer [] [] = False"
| "spec_isNewer (l # ls) [] = (if 0 < l then True else spec_isNewer ls [])"
| "spec_isNewer [] (c # cs) = (if 0 < c then False else spec_isNewer [] cs)"
| "spec_isNewer (l # ls) (c # cs) =
     (if c < l then True else if l < c then False else spec_isNewer ls cs)"

definition dotted_numeric :: "string \<Rightarrow> bool" where
  \<comment> \<open>a dotted version string: every segment a non-empty run of decimal digits\<close>
  "dotted_numeric v = list_all (\<lambda>s. s \<noteq> [] \<and> list_all isDigit s) (splitDot v)"

text \<open>
  Notions for the proofs: the value the loop reads at index \<open>i\<close>, the first index at
  which two part lists differ with the left one greater, the number of a non-negative
  integer, and a run of trailing \<open>.0\<close> segments.
\<close>

definition seq :: "jsnum list \<Rightarrow> nat \<Rightarrow> jsnum" where
  "seq xs i = orZero (at_index xs i)"

definition decides :: "jsnum list \<Rightarrow> jsnum list \<Rightarrow> nat \<Rightarrow> nat \<Rightarrow> bool" where
  "decides ls cs i k =
     (i \<le> k \<and> (\<forall>j. i \<le> j \<and> j < k \<longrightarrow> seq ls j = seq cs j) \<and> js_gt (seq ls k) (seq cs k))"

definition fin :: "nat \<Rightarrow> jsnum" where "fin n = Fin (of_nat n)"

definition trailing_zeros :: "nat \<Rightarrow> string" where
  "trailing_zeros n = concat (replicate n ''.0'')"

section \<open>The updater module: its state and its collaborators\<close>

text \<open>
  The module keeps its state in module-level variables (\<open>latestUpdateInfo\<close>,
  \<open>downloadedDmgPath\<close>, \<open>autoCheckTimer\<close>, \<open>initialCheckTimeout\<close>, \<open>isFirstStart\<close>,
  \<open>mainWindow\<close>, the constant \<open>isDev\<close>) and acts on collaborators: the settings store,
  the timers of the runtime, the renderer it sends messages to, the log, the shell that
  opens web pages and the update feed. The record \<open>updater\<close> holds the variables together
  with what the collaborators have been asked to do, so that every effect of a function
  is a change of the record.
\<close>

datatype jsval =
    JUndefined
  | JNull
  | JBool bool
  | JNum rat
  | JStr string
  | JArr "jsval list"
  | JObj "(string \<times> jsval) list"

datatype window = NoWindow | Destroyed | Alive

datatype level = Info | Error

datatype log_arg =
    Txt string
  | Num jsnum \<comment> \<open>a number, which the log shows as its decimal text\<close>

text \<open>
  The settings store keeps its values as JSON text in a file and reads the file at every
  \<open>get\<close>. A finite number comes back as it was set; \<open>NaN\<close> and the infinities, which JSON
  cannot write, come back as \<open>null\<close>. In arithmetic \<open>null\<close> counts as 0.
\<close>

datatype json_number = JsonNull | JsonNum rat

fun to_json :: "jsnum \<Rightarrow> json_number" where
  "to_json (Fin q) = JsonNum q"
| "to_json NaN = JsonNull"
| "to_json PosInf = JsonNull"
| "to_json NegInf = JsonNull"

fun to_number :: "json_number \<Rightarrow> jsnum" where
  "to_number JsonNull = Fin 0"
| "to_number (JsonNum q) = Fin q"

fun interpolated :: "json_number \<Rightarrow> log_arg" where
  \<comment> \<open>\<open>${value}\<close> in a template literal\<close>
  "interpolated JsonNull = Txt ''null''"
| "interpolated (JsonNum q) = Num (Fin q)"

datatype kind = Interval | Timeout

datatype callback =
    AutoCheckTick \<comment> \<open>the recurring background check\<close>
  | InitialCheck \<comment> \<open>the one-shot check ten seconds after the start\<close>
  | DevNotAvailable string \<comment> \<open>the delayed answer of a check in dev mode\<close>
  | QuitApp \<comment> \<open>\<open>app.quit()\<close> after a disk image was opened\<close>
  | QuitAndInstall \<comment> \<open>\<open>autoUpdater.quitAndInstall(false, true)\<close>\<close>

record timer =
  handle :: nat
  timer_kind :: kind
  delay :: jsnum \<comment> \<open>the number passed to \<open>setInterval\<close> or \<open>setTimeout\<close>\<close>
  action :: callback

record store =
  autoCheckUpdate :: "bool option" \<comment> \<open>the key \<open>'autoCheckUpdate'\<close>, \<open>None\<close> when never set\<close>
  autoCheckInterval :: "json_number option" \<comment> \<open>the key \<open>'autoCheckInterval'\<close>, in hours\<close>
  otherKeys :: "string \<Rightarrow> jsval option" \<comment> \<open>every other key of the store\<close>

record settings =
  enabled :: bool
  interval :: json_number

record partial_settings =
  enabled_opt :: "bool option" \<comment> \<open>\<open>settings.enabled\<close>, \<open>None\<close> for \<open>undefined\<close>\<close>
  interval_opt :: "jsnum option" \<comment> \<open>\<open>settings.interval\<close>, any number\<close>

record updateInfo =
  version :: string
  releaseDate :: jsval
  releaseNotes :: jsval
  releaseName :: jsval

record updater =
  isDev :: bool \<comment> \<open>\<open>!app.isPackaged\<close>\<close>
  appVersion :: string \<comment> \<open>\<open>app.getVersion()\<close>\<close>
  platform :: string \<comment> \<open>\<open>process.platform\<close>\<close>
  downloadsDir :: string \<comment> \<open>\<open>app.getPath('downloads')\<close>\<close>
  mainWindow :: window
  latestUpdateInfo :: "updateInfo option"
  downloadedDmgPath :: "string option"
  autoCheckTimer :: "nat option"
  initialCheckTimeout :: "nat option"
  isFirstStart :: bool
  settingsStore :: store
  timers :: "timer list" \<comment> \<open>the live timers of the runtime\<close>
  nextHandle :: nat \<comment> \<open>the handle the next timer gets\<close>
  sent :: "(string \<times> jsval) list" \<comment> \<open>\<open>webContents.send(channel, data)\<close>, oldest first\<close>
  logs :: "(level \<times> log_arg list) list" \<comment> \<open>\<open>log.info\<close> and \<open>log.error\<close>, with their arguments\<close>
  opened :: "string list" \<comment> \<open>\<open>shell.openExternal(url)\<close> and \<open>shell.openPath(path)\<close>\<close>
  feedChecks :: nat \<comment> \<open>calls of \<open>autoUpdater.checkForUpdates()\<close>\<close>
  feedDownloads :: nat \<comment> \<open>calls of \<open>autoUpdater.downloadUpdate()\<close>\<close>
  exits :: "string list" \<comment> \<open>calls of \<open>app.quit()\<close> and \<open>autoUpdater.quitAndInstall(false, true)\<close>\<close>

definition log_info :: "string list \<Rightarrow> updater \<Rightarrow> updater" where
  "log_info args s = s\<lparr>logs := logs s @ [(Info, map Txt args)]\<rparr>"

definition log_error :: "string list \<Rightarrow> updater \<Rightarrow> updater" where
  "log_error args s = s\<lparr>logs := logs s @ [(Error, map Txt args)]\<rparr>"

definition log_info_parts :: "log_arg list \<Rightarrow> updater \<Rightarrow> updater" where
  \<comment> \<open>\<open>log.info\<close> of a template literal: its text with the numbers it interpolates\<close>
  "log_info_parts parts s = s\<lparr>logs := logs s @ [(Info, parts)]\<rparr>"

text \<open>
  \<^verbatim>\<open>
  function sendToRenderer(channel: string, data: any) {
      if (mainWindow && !mainWindow.isDestroyed()) {
          mainWindow.webContents.send(channel, data);
      }
  }
  \<close>
\<close>

definition sendToRenderer :: "string \<Rightarrow> jsval \<Rightarrow> updater \<Rightarrow> updater" where
  "sendToRenderer channel data s =
     (if mainWindow s = Alive then s\<lparr>sent := sent s @ [(channel, data)]\<rparr> else s)"

definition period_ms :: "jsnum \<Rightarrow> int" where
  \<comment> \<open>the time, in milliseconds, the runtime lets a timer wait when it is given the delay
      \<open>ms\<close>: a delay that is not a number from 1 to \<open>2^31 - 1\<close> is taken as 1, and the fraction
      of a millisecond is dropped\<close>
  "period_ms ms =
     (case ms of
        Fin q \<Rightarrow> if 1 \<le> q \<and> q \<le> 2147483647 then \<lfloor>q\<rfloor> else 1
      | _ \<Rightarrow> 1)"

definition setTimer :: "kind \<Rightarrow> callback \<Rightarrow> jsnum \<Rightarrow> updater \<Rightarrow> nat \<times> updater" where
  \<comment> \<open>\<open>setInterval(cb, ms)\<close> and \<open>setTimeout(cb, ms)\<close>: a new live timer, its handle returned;
      the timer keeps the delay as it was passed, \<open>period_ms\<close> says how long it waits\<close>
  "setTimer k cb ms s =
     (nextHandle s,
      s\<lparr>timers := timers s @ [\<lparr>handle = nextHandle s, timer_kind = k, delay = ms, action = cb\<rparr>],
        nextHandle := Suc (nextHandle s)\<rparr>)"

definition clearTimer :: "nat \<Rightarrow> updater \<Rightarrow> updater" where
  \<comment> \<open>\<open>clearInterval(h)\<close> and \<open>clearTimeout(h)\<close>\<close>
  "clearTimer h s = s\<lparr>timers := filter (\<lambda>t. handle t \<noteq> h) (timers s)\<rparr>"

definition digit_char :: "nat \<Rightarrow> char" where
  "digit_char n = ''0123456789'' ! (n mod 10)"

function showNat :: "nat \<Rightarrow> string" where
  "showNat n = (if n < 10 then [digit_char n] else showNat (n div 10) @ [digit_char (n mod 10)])"
  by pat_completeness auto
termination
  by (relation "measure id") auto

declare showNat.simps [simp del]

definition showBool :: "bool \<Rightarrow> string" where
  "showBool b = (if b then ''true'' else ''false'')"

text \<open>
  \<^verbatim>\<open>
  function getAutoCheckSettings(): { enabled: boolean; interval: number } {
      return {
          enabled: store.get('autoCheckUpdate', true) as boolean,
          interval: store.get('autoCheckInterval', 24) as number
      };
  }
  \<close>
\<close>

definition getAutoCheckSettings :: "updater \<Rightarrow> settings" where
  "getAutoCheckSettings s =
     \<lparr>enabled = (case autoCheckUpdate (settingsStore s) of None \<Rightarrow> True | Some b \<Rightarrow> b),
      interval = (case autoCheckInterval (settingsStore s) of None \<Rightarrow> JsonNum 24 | Some i \<Rightarrow> i)\<rparr>"

section \<open>The silent check and the background scheduler\<close>

text \<open>
  \<open>autoUpdater.checkForUpdates()\<close> is the update feed's: its promise rejects with an
  error, or resolves with a result that may be \<open>null\<close> or carry no \<open>updateInfo\<close>
  (\<open>CheckResolves None\<close>), or with the feed's latest release, whatever its version.
  The events the feed dispatches to its listeners while it checks are the feed's doing,
  not this function's.
  \<^verbatim>\<open>
  async function silentCheckForUpdates() {
      try {
          if (isDev) return;
          const result = await autoUpdater.checkForUpdates();
          if (result && result.updateInfo) {
              const currentVersion = app.getVersion();
              if (result.updateInfo.version !== currentVersion) {
                  log.info(`Silent check found update: ${result.updateInfo.version}`);
                  sendToRenderer('update-available-silent', {
                      version: result.updateInfo.version,
                      releaseDate: result.updateInfo.releaseDate
                  });
              }
          }
      } catch (error) {
          log.error('Silent update check error:', error);
      }
  }
  \<close>
\<close>

datatype check_outcome = CheckRejects string | CheckResolves "updateInfo option"

definition silentCheckForUpdates :: "check_outcome \<Rightarrow> updater \<Rightarrow> updater" where
  "silentCheckForUpdates outcome s =
     (if isDev s then s
      else
        let s1 = s\<lparr>feedChecks := Suc (feedChecks s)\<rparr> in
        case outcome of
          CheckRejects err \<Rightarrow> log_error [''Silent update check error:'', err] s1
        | CheckResolves None \<Rightarrow> s1
        | CheckResolves (Some info) \<Rightarrow>
            let currentVersion = appVersion s1 in
            if version info \<noteq> currentVersion then
              sendToRenderer ''update-available-silent''
                (JObj [(''version'', JStr (version info)), (''releaseDate'', releaseDate info)])
                (log_info [''Silent check found update: '' @ version info] s1)
            else s1)"

text \<open>
  \<^verbatim>\<open>
  let initialCheckTimeout: NodeJS.Timeout | null = null;
  let isFirstStart = true;

  function startAutoCheck() {
      if (autoCheckTimer) {
          clearInterval(autoCheckTimer);
          autoCheckTimer = null;
      }
      if (initialCheckTimeout) {
          clearTimeout(initialCheckTimeout);
          initialCheckTimeout = null;
      }
      const settings = getAutoCheckSettings();
      if (!settings.enabled || isDev) {
          log.info('Auto update check disabled or in dev mode');
          return;
      }
      const intervalMs = settings.interval * 60 * 60 * 1000;
      log.info(`Auto update check enabled, interval: ${settings.interval} hours (${intervalMs}ms)`);
      autoCheckTimer = setInterval(() => {
          log.info('Background auto check for updates...');
          silentCheckForUpdates();
      }, intervalMs);
      if (isFirstStart) {
          isFirstStart = false;
          initialCheckTimeout = setTimeout(() => {
              log.info('Initial auto check for updates...');
              silentCheckForUpdates();
              initialCheckTimeout = null;
          }, 10000);
      }
  }
  \<close>
\<close>

definition hours_to_ms :: "jsnum \<Rightarrow> jsnum" where
  \<comment> \<open>\<open>settings.interval * 60 * 60 * 1000\<close>, three multiplications of doubles\<close>
  "hours_to_ms hours = js_mul (js_mul (js_mul hours (Fin 60)) (Fin 60)) (Fin 1000)"

definition clearTimers :: "updater \<Rightarrow> updater" where
  \<comment> \<open>the two \<open>if\<close> blocks that open \<open>startAutoCheck\<close>\<close>
  "clearTimers s =
     (let s1 = (case autoCheckTimer s of
                  Some h \<Rightarrow> (clearTimer h s)\<lparr>autoCheckTimer := None\<rparr>
                | None \<Rightarrow> s)
      in case initialCheckTimeout s1 of
           Some h \<Rightarrow> (clearTimer h s1)\<lparr>initialCheckTimeout := None\<rparr>
         | None \<Rightarrow> s1)"

definition startAutoCheck :: "updater \<Rightarrow> updater" where
  "startAutoCheck s =
     (let s2 = clearTimers s;
          settings = getAutoCheckSettings s2
      in if \<not> enabled settings \<or> isDev s2 then
           log_info [''Auto update check disabled or in dev mode''] s2
         else
           let intervalMs = hours_to_ms (to_number (interval settings));
               s3 = log_info_parts
                      [Txt ''Auto update check enabled, interval: '', interpolated (interval settings),
                       Txt '' hours ('', Num intervalMs, Txt ''ms)''] s2;
               (h, s4) = setTimer Interval AutoCheckTick intervalMs s3;
               s5 = s4\<lparr>autoCheckTimer := Some h\<rparr>
           in if isFirstStart s5 then
                let s6 = s5\<lparr>isFirstStart := False\<rparr>;
                    (h', s7) = setTimer Timeout InitialCheck (Fin 10000) s6
                in s7\<lparr>initialCheckTimeout := Some h'\<rparr>
              else s5)"

text \<open>
  \<^verbatim>\<open>
  export function initUpdater(win: BrowserWindow) {
      mainWindow = win;
      setupAutoUpdaterEvents();
      setupIpcHandlers();
      startAutoCheck();
  }
  \<close>
  The state of the module when it is loaded, before \<open>initUpdater\<close>: no window, no
  timers, \<open>isFirstStart = true\<close>.
\<close>

definition loaded :: "bool \<Rightarrow> string \<Rightarrow> string \<Rightarrow> string \<Rightarrow> store \<Rightarrow> updater" where
  "loaded dev ver plat dir st =
     \<lparr>isDev = dev, appVersion = ver, platform = plat, downloadsDir = dir,
      mainWindow = NoWindow, latestUpdateInfo = None, downloadedDmgPath = None,
      autoCheckTimer = None, initialCheckTimeout = None, isFirstStart = True,
      settingsStore = st, timers = [], nextHandle = 0, sent = [], logs = [],
      opened = [], feedChecks = 0, feedDownloads = 0, exits = []\<rparr>"

definition initUpdater :: "window \<Rightarrow> updater \<Rightarrow> updater" where
  "initUpdater win s = startAutoCheck (s\<lparr>mainWindow := win\<rparr>)"

text \<open>
  The handler of \<open>'set-auto-update-settings'\<close> and of \<open>'get-auto-update-settings'\<close>:
  \<^verbatim>\<open>
  ipcMain.handle('get-auto-update-settings', () => {
      return getAutoCheckSettings();
  });
  ipcMain.handle('set-auto-update-settings', (_, settings: { enabled?: boolean; interval?: number }) => {
      if (settings.enabled !== undefined) {
          store.set('autoCheckUpdate', settings.enabled);
      }
      if (settings.interval !== undefined) {
          store.set('autoCheckInterval', settings.interval);
      }
      startAutoCheck();
      return getAutoCheckSettings();
  });
  \<close>
\<close>

definition store_settings :: "partial_settings \<Rightarrow> updater \<Rightarrow> updater" where
  \<comment> \<open>the two conditional \<open>store.set\<close> calls\<close>
  "store_settings p s =
     (let s1 = (case enabled_opt p of
                  Some b \<Rightarrow> s\<lparr>settingsStore := (settingsStore s)\<lparr>autoCheckUpdate := Some b\<rparr>\<rparr>
                | None \<Rightarrow> s)
      in case interval_opt p of
           Some i \<Rightarrow> s1\<lparr>settingsStore := (settingsStore s1)\<lparr>autoCheckInterval := Some (to_json i)\<rparr>\<rparr>
         | None \<Rightarrow> s1)"

definition set_auto_update_settings :: "partial_settings \<Rightarrow> updater \<Rightarrow> settings \<times> updater" where
  "set_auto_update_settings p s =
     (let s' = startAutoCheck (store_settings p s) in (getAutoCheckSettings s', s'))"

definition get_auto_update_settings :: "updater \<Rightarrow> settings" where
  "get_auto_update_settings s = getAutoCheckSettings s"

text \<open>
  What a timer does when the runtime fires it; a one-shot is gone once it fired. The
  environment decides the outcome of the feed check a callback starts and whether
  \<open>quitAndInstall\<close> throws.
  \<^verbatim>\<open>
  setTimeout(() => { log.info('Quitting app for manual update...'); app.quit(); }, 1500);

  setTimeout(() => {
      log.info('Calling quitAndInstall...');
      try {
          autoUpdater.quitAndInstall(false, true);
      } catch (e) {
          log.error('quitAndInstall error:', e);
          app.quit();
      }
  }, 500);
  \<close>
\<close>

record timer_env =
  check_result :: check_outcome
  quitAndInstall_error :: "string option"

fun run_callback :: "timer_env \<Rightarrow> callback \<Rightarrow> updater \<Rightarrow> updater" where
  "run_callback env AutoCheckTick s =
     silentCheckForUpdates (check_result env) (log_info [''Background auto check for updates...''] s)"
| "run_callback env InitialCheck s =
     (silentCheckForUpdates (check_result env) (log_info [''Initial auto check for updates...''] s))
       \<lparr>initialCheckTimeout := None\<rparr>"
| "run_callback env (DevNotAvailable currentVersion) s =
     sendToRenderer ''update-not-available''
       (JObj [(''version'', JStr currentVersion), (''devMode'', JBool True)]) s"
| "run_callback env QuitApp s =
     (log_info [''Quitting app for manual update...''] s)\<lparr>exits := exits s @ [''app.quit'']\<rparr>"
| "run_callback env QuitAndInstall s =
     (let s1 = (log_info [''Calling quitAndInstall...''] s)
                 \<lparr>exits := exits s @ [''autoUpdater.quitAndInstall'']\<rparr>
      in case quitAndInstall_error env of
           None \<Rightarrow> s1
         | Some e \<Rightarrow> (log_error [''quitAndInstall error:'', e] s1)\<lparr>exits := exits s1 @ [''app.quit'']\<rparr>)"

definition fire :: "timer_env \<Rightarrow> nat \<Rightarrow> updater \<Rightarrow> updater" where
  "fire env h s =
     (case find (\<lambda>t. handle t = h) (timers s) of
        None \<Rightarrow> s
      | Some t \<Rightarrow>
          run_callback env (action t)
            (if timer_kind t = Timeout then clearTimer h s else s))"

text \<open>
  A process lifetime after \<open>initUpdater\<close>: settings changes from the renderer and
  timers firing, in any order.
\<close>

datatype lifetime_event = SetSettings partial_settings | Fires nat timer_env

fun lifetime_step :: "updater \<Rightarrow> lifetime_event \<Rightarrow> updater" where
  "lifetime_step s (SetSettings p) = snd (set_auto_update_settings p s)"
| "lifetime_step s (Fires h env) = fire env h s"

definition lifetime :: "updater \<Rightarrow> lifetime_event list \<Rightarrow> updater" where
  "lifetime s evs = foldl lifetime_step s evs"

fun start_states :: "updater \<Rightarrow> lifetime_event list \<Rightarrow> updater list" where
  \<comment> \<open>the states in which \<open>startAutoCheck\<close> is run during a lifetime that begins in \<open>s\<close>\<close>
  "start_states s [] = []"
| "start_states s (SetSettings p # evs) =
     store_settings p s # start_states (lifetime_step s (SetSettings p)) evs"
| "start_states s (Fires h env # evs) = start_states (lifetime_step s (Fires h env)) evs"

definition armed :: "updater \<Rightarrow> bool" where
  \<comment> \<open>auto-check is enabled in the store and the application is packaged\<close>
  "armed s = (enabled (getAutoCheckSettings s) \<and> \<not> isDev s)"

definition arms_oneshot :: "updater \<Rightarrow> bool" where
  \<comment> \<open>a run of \<open>startAutoCheck\<close> from \<open>s\<close> arms the ten-second one-shot\<close>
  "arms_oneshot s = (initialCheckTimeout (startAutoCheck s) \<noteq> None)"

definition arms_recurring :: "updater \<Rightarrow> bool" where
  "arms_recurring s = (autoCheckTimer (startAutoCheck s) \<noteq> None)"

definition scheduler_timers :: "updater \<Rightarrow> timer list" where
  \<comment> \<open>the live timers that run the background check\<close>
  "scheduler_timers s = filter (\<lambda>t. action t = AutoCheckTick \<or> action t = InitialCheck) (timers s)"

definition whole_hours :: "json_number \<Rightarrow> bool" where
  \<comment> \<open>an integer number of hours from 1 to 596, the most whose milliseconds do not
      exceed \<open>2^31 - 1\<close>\<close>
  "whole_hours v =
     (case v of JsonNull \<Rightarrow> False | JsonNum q \<Rightarrow> of_int \<lfloor>q\<rfloor> = q \<and> 1 \<le> q \<and> q \<le> 596)"

definition sched_inv :: "updater \<Rightarrow> bool" where
  \<comment> \<open>every live timer of the scheduler is the one a variable of the module refers to\<close>
  "sched_inv s =
     ((\<forall>t \<in> set (timers s). handle t < nextHandle s)
      \<and> distinct (map handle (timers s))
      \<and> (\<forall>t \<in> set (timers s). action t = AutoCheckTick \<longrightarrow> autoCheckTimer s = Some (handle t))
      \<and> (\<forall>t \<in> set (timers s). action t = InitialCheck \<longrightarrow>
            timer_kind t = Timeout \<and> initialCheckTimeout s = Some (handle t)))"

text \<open>Example states: a packaged application whose store has auto-check switched off,
  one whose store was never written, and a release older than the running version.\<close>

definition store_disabled :: store where
  "store_disabled = \<lparr>autoCheckUpdate = Some False, autoCheckInterval = None, otherKeys = (\<lambda>k. None)\<rparr>"

definition store_fresh :: store where
  "store_fresh = \<lparr>autoCheckUpdate = None, autoCheckInterval = None, otherKeys = (\<lambda>k. None)\<rparr>"

definition loaded_fresh :: updater where
  "loaded_fresh = loaded False ''1.2.0'' ''win32'' ''C:/Downloads'' store_fresh"

definition packaged_disabled :: updater where
  "packaged_disabled = initUpdater Alive (loaded False ''1.2.0'' ''win32'' ''C:/Downloads'' store_disabled)"

definition packaged_fresh :: updater where
  "packaged_fresh = initUpdater Alive (loaded False ''1.2.0'' ''win32'' ''C:/Downloads'' store_fresh)"

definition dev_fresh :: updater where
  "dev_fresh = initUpdater Alive (loaded True ''1.2.0'' ''darwin'' ''/Users/me/Downloads'' store_fresh)"

definition quiet :: timer_env where
  "quiet = \<lparr>check_result = CheckResolves None, quitAndInstall_error = None\<rparr>"

definition older_release :: updateInfo where
  "older_release =
     \<lparr>version = ''1.1.0'', releaseDate = JStr ''2024-01-01T00:00:00.000Z'',
      releaseNotes = JUndefined, releaseName = JUndefined\<rparr>"

section \<open>The downloader\<close>

text \<open>
  \<^verbatim>\<open>
  function downloadFile(url, destPath, onProgress): Promise<void> {
      return new Promise((resolve, reject) => {
          const file = fs.createWriteStream(destPath);
          let downloadedBytes = 0;
          let totalBytes = 0;
          let startTime = Date.now();
          const makeRequest = (requestUrl: string) => {
              https.get(requestUrl, (response) => {
                  if (response.statusCode === 301 || response.statusCode === 302) {
                      const redirectUrl = response.headers.location;
                      if (redirectUrl) {
                          log.info(`Redirecting to: ${redirectUrl}`);
                          makeRequest(redirectUrl);
                          return;
                      }
                  }
                  if (response.statusCode !== 200) {
                      file.close();
                      fs.unlink(destPath, () => { });
                      reject(new Error(`Download failed: HTTP ${response.statusCode}`));
                      return;
                  }
                  totalBytes = parseInt(response.headers['content-length'] || '0', 10);
                  response.on('data', (chunk: Buffer) => {
                      downloadedBytes += chunk.length;
                      const elapsed = (Date.now() - startTime) / 1000;
                      const bytesPerSecond = elapsed > 0 ? downloadedBytes / elapsed : 0;
                      const percent = totalBytes > 0 ? (downloadedBytes / totalBytes) * 100 : 0;
                      onProgress({ percent, bytesPerSecond, transferred: downloadedBytes, total: totalBytes });
                  });
                  response.pipe(file);
                  file.on('finish', () => { file.close(); resolve(); });
                  file.on('error', (err) => { file.close(); fs.unlink(destPath, () => { }); reject(err); });
              }).on('error', (err) => {
                  file.close();
                  fs.unlink(destPath, () => { });
                  reject(err);
              });
          };
          makeRequest(url);
      });
  }
  \<close>
  The function only registers callbacks; what happens next is decided by the events the
  network and the file system deliver. The model is the state the closure holds (its
  variables, the promise, the file) and one step per event, which runs the callbacks the
  code has registered for it, and nothing where it registered none. A promise keeps its
  first settlement. \<open>fs.unlink\<close> is taken to succeed; \<open>percent\<close> and \<open>bytesPerSecond\<close> are
  the exact quotients.

  \<open>fs.createWriteStream\<close> returns at once: the file is created (or emptied) and its handle
  opened later, which is the event \<open>Opened\<close>, or the open fails, which is an \<open>'error'\<close> of
  the file. What the pipe writes before is kept by the stream and reaches the file when
  it is open. A file that \<open>file.close()\<close> is called on before it is open is closed as soon
  as it is opened. After an \<open>'error'\<close> the stream has released its handle.

  \<open>https.get\<close> is the runtime's: given a URL it cannot use (one that is not absolute, or
  whose protocol is not \<open>https:\<close>) it throws instead of issuing a request. It is a
  parameter of the model, \<open>Some message\<close> where it throws. A throw of the first call
  happens inside the executor of the promise, which rejects with the error; a throw of
  the call for a redirect happens inside the response callback, where nothing catches it.
\<close>

datatype 'a promise = Pending | Resolved 'a | Rejected string

definition settle :: "'a promise \<Rightarrow> 'a promise \<Rightarrow> 'a promise" where
  \<comment> \<open>\<open>resolve\<close> or \<open>reject\<close> on a promise in state \<open>p\<close>\<close>
  "settle new p = (if p = Pending then new else p)"

record progress =
  percent :: rat
  bytesPerSecond :: rat
  transferred :: nat
  total :: nat

datatype net_event =
    Response nat "string option" nat
      \<comment> \<open>a response: \<open>statusCode\<close>, \<open>headers.location\<close>, and the number
          \<open>parseInt(headers['content-length'] || '0', 10)\<close>\<close>
  | Data string int \<comment> \<open>a chunk of the response body, and \<open>Date.now()\<close> when it arrives\<close>
  | Opened \<comment> \<open>the file at \<open>destPath\<close> is created or emptied, its handle open\<close>
  | End \<comment> \<open>the response body is complete: the pipe ends the file\<close>
  | Finish \<comment> \<open>\<open>'finish'\<close> of the file: everything written is flushed\<close>
  | ResponseError string \<comment> \<open>\<open>'error'\<close> of the response stream: the body broke off\<close>
  | FileError string \<comment> \<open>\<open>'error'\<close> of the file stream\<close>
  | RequestError string \<comment> \<open>\<open>'error'\<close> of the request\<close>

record download =
  destPath :: string
  requests :: "string list" \<comment> \<open>the URLs of the requests \<open>https.get\<close> has issued, oldest first\<close>
  awaiting :: bool \<comment> \<open>the latest request has not been answered\<close>
  streaming :: bool \<comment> \<open>a 200 response arrived: \<open>'data'\<close>, the pipe, \<open>'finish'\<close> and the
                        file's \<open>'error'\<close> have their callbacks\<close>
  fileOpen :: bool \<comment> \<open>the file handle is open\<close>
  fileDone :: bool \<comment> \<open>\<open>file.close()\<close> was called, or the stream had an \<open>'error'\<close>\<close>
  fileEnded :: bool \<comment> \<open>the pipe has ended the file\<close>
  written :: string \<comment> \<open>the bytes the pipe has written to the file stream\<close>
  destExists :: bool \<comment> \<open>the file of this download exists at \<open>destPath\<close>\<close>
  downloadedBytes :: nat
  totalBytes :: nat
  startTime :: int
  reported :: "progress list" \<comment> \<open>the calls of \<open>onProgress\<close>, oldest first\<close>
  redirects :: "string list" \<comment> \<open>\<open>log.info(`Redirecting to: ...`)\<close>\<close>
  uncaught :: "string option" \<comment> \<open>an exception nobody catches: an \<open>'error'\<close> event without
                                   a listener, or a throw inside a callback\<close>
  completion :: "unit promise"

definition makeRequest :: "(string \<Rightarrow> string option) \<Rightarrow> string \<Rightarrow> download \<Rightarrow> string + download" where
  \<comment> \<open>\<open>https.get(requestUrl, ...)\<close>: \<open>Inl\<close> the error it throws, or the request is issued\<close>
  "makeRequest https_get requestUrl d =
     (case https_get requestUrl of
        Some err \<Rightarrow> Inl err
      | None \<Rightarrow> Inr (d\<lparr>requests := requests d @ [requestUrl], awaiting := True\<rparr>))"

definition abandon :: "string \<Rightarrow> download \<Rightarrow> download" where
  \<comment> \<open>\<open>file.close(); fs.unlink(destPath, () => { }); reject(err)\<close>\<close>
  "abandon err d =
     d\<lparr>fileOpen := False, fileDone := True, destExists := False,
       completion := settle (Rejected err) (completion d)\<rparr>"

definition on_response ::
    "(string \<Rightarrow> string option) \<Rightarrow> nat \<Rightarrow> string option \<Rightarrow> nat \<Rightarrow> download \<Rightarrow> download" where
  "on_response https_get statusCode location contentLength d =
     (if (statusCode = 301 \<or> statusCode = 302)
          \<and> (case location of None \<Rightarrow> False | Some redirectUrl \<Rightarrow> redirectUrl \<noteq> [])
      then
        (case location of
           Some redirectUrl \<Rightarrow>
             (let d1 = d\<lparr>redirects := redirects d @ [redirectUrl]\<rparr>
              in case makeRequest https_get redirectUrl d1 of
                   Inl err \<Rightarrow> d1\<lparr>uncaught := Some err\<rparr>
                 | Inr d2 \<Rightarrow> d2)
         | None \<Rightarrow> d)
      else if statusCode \<noteq> 200 then
        abandon (''Download failed: HTTP '' @ showNat statusCode) d
      else d\<lparr>totalBytes := contentLength, streaming := True\<rparr>)"

definition on_data :: "string \<Rightarrow> int \<Rightarrow> download \<Rightarrow> download" where
  \<comment> \<open>the \<open>'data'\<close> callback, and the pipe writing the chunk\<close>
  "on_data chunk now d =
     (let downloaded = downloadedBytes d + length chunk;
          elapsed = of_int (now - startTime d) / (1000 :: rat);
          bps = (if 0 < elapsed then of_nat downloaded / elapsed else 0);
          pct = (if 0 < totalBytes d then of_nat downloaded / of_nat (totalBytes d) * 100 else 0)
      in d\<lparr>downloadedBytes := downloaded,
           reported := reported d @
             [\<lparr>percent = pct, bytesPerSecond = bps, transferred = downloaded, total = totalBytes d\<rparr>],
           written := (if \<not> fileDone d \<and> \<not> fileEnded d then written d @ chunk else written d)\<rparr>)"

fun dl_step :: "(string \<Rightarrow> string option) \<Rightarrow> download \<Rightarrow> net_event \<Rightarrow> download" where
  "dl_step https_get d (Response statusCode location contentLength) =
     (if awaiting d
      then on_response https_get statusCode location contentLength (d\<lparr>awaiting := False\<rparr>)
      else d)"
| "dl_step https_get d Opened = d\<lparr>destExists := True, fileOpen := \<not> fileDone d\<rparr>"
| "dl_step https_get d (Data chunk now) = (if streaming d then on_data chunk now d else d)"
| "dl_step https_get d End = (if streaming d then d\<lparr>fileEnded := True\<rparr> else d)"
| "dl_step https_get d Finish =
     (if streaming d \<and> fileEnded d \<and> fileOpen d
      then d\<lparr>fileOpen := False, fileDone := True, completion := settle (Resolved ()) (completion d)\<rparr>
      else d)"
| "dl_step https_get d (FileError err) =
     (let d1 = d\<lparr>fileOpen := False, fileDone := True\<rparr>
      in if streaming d then abandon err d1 else d1\<lparr>uncaught := Some err\<rparr>)"
| "dl_step https_get d (RequestError err) = abandon err d"
| "dl_step https_get d (ResponseError err) = d"

definition downloadFile :: "(string \<Rightarrow> string option) \<Rightarrow> string \<Rightarrow> string \<Rightarrow> int \<Rightarrow> download" where
  \<comment> \<open>the state when \<open>downloadFile(url, destPath, onProgress)\<close> returns its promise, at time \<open>now\<close>\<close>
  "downloadFile https_get url dest now =
     (let d = \<lparr>destPath = dest, requests = [], awaiting = False, streaming = False,
                fileOpen = False, fileDone = False, fileEnded = False, written = [],
                destExists = False, downloadedBytes = 0, totalBytes = 0, startTime = now,
                reported = [], redirects = [], uncaught = None, completion = Pending\<rparr>
      in case makeRequest https_get url d of
           Inl err \<Rightarrow> d\<lparr>completion := Rejected err\<rparr>
         | Inr d1 \<Rightarrow> d1)"

definition download_run ::
    "(string \<Rightarrow> string option) \<Rightarrow> string \<Rightarrow> string \<Rightarrow> int \<Rightarrow> net_event list \<Rightarrow> download" where
  "download_run https_get url dest now evs =
     foldl (dl_step https_get) (downloadFile https_get url dest now) evs"






definition https_get_examples :: "string \<Rightarrow> string option" where
  \<comment> \<open>\<open>https.get\<close> on the URLs of the examples: the absolute \<open>https:\<close> ones are requested,
      the relative one is refused\<close>
  "https_get_examples url = (if url = ''/cdn/a.dmg'' then Some ''Invalid URL'' else None)"


section \<open>The handlers of the renderer's requests\<close>

text \<open>
  The listener of the feed's \<open>'update-available'\<close> event is what sets \<open>latestUpdateInfo\<close>:
  \<^verbatim>\<open>
  autoUpdater.on('update-available', (info: UpdateInfo) => {
      log.info('Update available:', info.version);
      latestUpdateInfo = info;
      sendToRenderer('update-available', {
          version: info.version, releaseDate: info.releaseDate,
          releaseNotes: info.releaseNotes, releaseName: info.releaseName
      });
  });
  \<close>
\<close>

definition updateInfo_val :: "updateInfo \<Rightarrow> jsval" where
  "updateInfo_val info =
     JObj [(''version'', JStr (version info)), (''releaseDate'', releaseDate info),
           (''releaseNotes'', releaseNotes info), (''releaseName'', releaseName info)]"

definition on_update_available :: "updateInfo \<Rightarrow> updater \<Rightarrow> updater" where
  "on_update_available info s =
     sendToRenderer ''update-available'' (updateInfo_val info)
       ((log_info [''Update available:'', version info] s)\<lparr>latestUpdateInfo := Some info\<rparr>)"

text \<open>
  \<^verbatim>\<open>
  ipcMain.handle('check-for-updates', async () => {
      try {
          log.info('Manual update check triggered, isDev:', isDev);
          sendToRenderer('checking-for-update', null);
          if (isDev) {
              log.info('Dev mode: skipping API call, showing dev mode notice');
              const currentVersion = app.getVersion();
              setTimeout(() => {
                  sendToRenderer('update-not-available', { version: currentVersion, devMode: true });
              }, 500);
              return { success: true, updateInfo: { version: currentVersion }, devMode: true };
          } else {
              const result = await autoUpdater.checkForUpdates();
              return { success: true, updateInfo: result?.updateInfo };
          }
      } catch (error: any) {
          log.error('Failed to check for updates:', error);
          sendToRenderer('update-error', { message: error.message });
          return { success: false, error: error.message };
      }
  });
  \<close>
\<close>

definition failure :: "string \<Rightarrow> jsval" where
  \<comment> \<open>\<open>{ success: false, error: message }\<close>\<close>
  "failure message = JObj [(''success'', JBool False), (''error'', JStr message)]"

definition check_for_updates :: "check_outcome \<Rightarrow> updater \<Rightarrow> jsval \<times> updater" where
  "check_for_updates outcome s =
     (let s1 = sendToRenderer ''checking-for-update'' JNull
                 (log_info [''Manual update check triggered, isDev:'', showBool (isDev s)] s)
      in if isDev s1 then
           let s2 = log_info [''Dev mode: skipping API call, showing dev mode notice''] s1;
               currentVersion = appVersion s2;
               (h, s3) = setTimer Timeout (DevNotAvailable currentVersion) (Fin 500) s2
           in (JObj [(''success'', JBool True),
                     (''updateInfo'', JObj [(''version'', JStr currentVersion)]),
                     (''devMode'', JBool True)], s3)
         else
           let s2 = s1\<lparr>feedChecks := Suc (feedChecks s1)\<rparr> in
           case outcome of
             CheckResolves info \<Rightarrow>
               (JObj [(''success'', JBool True),
                      (''updateInfo'', case info of None \<Rightarrow> JUndefined | Some i \<Rightarrow> updateInfo_val i)],
                s2)
           | CheckRejects message \<Rightarrow>
               (failure message,
                sendToRenderer ''update-error'' (JObj [(''message'', JStr message)])
                  (log_error [''Failed to check for updates:'', message] s2)))"

definition msg_dev_download :: string where
  \<comment> \<open>the message of the refused download, in UTF-8\<close>
  "msg_dev_download =
     [CHR 0xE5, CHR 0xBC, CHR 0x80, CHR 0xE5, CHR 0x8F, CHR 0x91, CHR 0xE6, CHR 0xA8,
      CHR 0xA1, CHR 0xE5, CHR 0xBC, CHR 0x8F, CHR 0xE4, CHR 0xB8, CHR 0x8B, CHR 0xE6,
      CHR 0x97, CHR 0xA0, CHR 0xE6, CHR 0xB3, CHR 0x95, CHR 0xE8, CHR 0x87, CHR 0xAA,
      CHR 0xE5, CHR 0x8A, CHR 0xA8, CHR 0xE4, CHR 0xB8, CHR 0x8B, CHR 0xE8, CHR 0xBD,
      CHR 0xBD, CHR 0xEF, CHR 0xBC, CHR 0x8C, CHR 0xE5, CHR 0xB7, CHR 0xB2, CHR 0xE6,
      CHR 0x89, CHR 0x93, CHR 0xE5, CHR 0xBC, CHR 0x80, CHR 0x20, CHR 0x47, CHR 0x69,
      CHR 0x74, CHR 0x48, CHR 0x75, CHR 0x62, CHR 0x20, CHR 0x52, CHR 0x65, CHR 0x6C,
      CHR 0x65, CHR 0x61, CHR 0x73, CHR 0x65, CHR 0x73, CHR 0x20, CHR 0xE9, CHR 0xA1,
      CHR 0xB5, CHR 0xE9, CHR 0x9D, CHR 0xA2]"

definition msg_dev_install :: string where
  \<comment> \<open>the message of the refused installation, in UTF-8\<close>
  "msg_dev_install =
     [CHR 0xE5, CHR 0xBC, CHR 0x80, CHR 0xE5, CHR 0x8F, CHR 0x91, CHR 0xE6, CHR 0xA8,
      CHR 0xA1, CHR 0xE5, CHR 0xBC, CHR 0x8F, CHR 0xE4, CHR 0xB8, CHR 0x8B, CHR 0xE6,
      CHR 0x97, CHR 0xA0, CHR 0xE6, CHR 0xB3, CHR 0x95, CHR 0xE5, CHR 0xAE, CHR 0x89,
      CHR 0xE8, CHR 0xA3, CHR 0x85, CHR 0xE6, CHR 0x9B, CHR 0xB4, CHR 0xE6, CHR 0x96,
      CHR 0xB0]"

definition msg_download_failed :: string where
  \<comment> \<open>the prefix of the message after a failed disk-image download, in UTF-8\<close>
  "msg_download_failed =
     [CHR 0xE4, CHR 0xB8, CHR 0x8B, CHR 0xE8, CHR 0xBD, CHR 0xBD, CHR 0xE5, CHR 0xA4,
      CHR 0xB1, CHR 0xE8, CHR 0xB4, CHR 0xA5, CHR 0xEF, CHR 0xBC, CHR 0x8C, CHR 0xE5,
      CHR 0xB7, CHR 0xB2, CHR 0xE6, CHR 0x89, CHR 0x93, CHR 0xE5, CHR 0xBC, CHR 0x80,
      CHR 0xE4, CHR 0xB8, CHR 0x8B, CHR 0xE8, CHR 0xBD, CHR 0xBD, CHR 0xE9, CHR 0xA1,
      CHR 0xB5, CHR 0xE9, CHR 0x9D, CHR 0xA2, CHR 0x3A, CHR 0x20]"

text \<open>
  The two messages above are the renderer's notices in dev mode, in the source
  \<open>'\\u5f00\\u53d1\\u6a21\\u5f0f\\u4e0b\\u65e0\\u6cd5\\u81ea\\u52a8\\u4e0b\\u8f7d\\uff0c\\u5df2\\u6253\\u5f00 GitHub Releases \\u9875\\u9762'\<close>
  and \<open>'\\u5f00\\u53d1\\u6a21\\u5f0f\\u4e0b\\u65e0\\u6cd5\\u5b89\\u88c5\\u66f4\\u65b0'\<close>; the third is the prefix
  \<open>'\\u4e0b\\u8f7d\\u5931\\u8d25\\uff0c\\u5df2\\u6253\\u5f00\\u4e0b\\u8f7d\\u9875\\u9762: '\<close>.
  \<^verbatim>\<open>
  ipcMain.handle('download-update', async () => {
      try {
          if (isDev) {
              log.info('Dev mode: opening releases page instead of downloading');
              await shell.openExternal('https://github.com/jheroy/Redmine-desktop/releases');
              sendToRenderer('update-error', { message: '...' });
              return { success: false, error: 'Dev mode - opened releases page' };
          }
          if (process.platform === 'darwin' && latestUpdateInfo) {
              const version = latestUpdateInfo.version;
              const dmgFileName = `Redmine-${version}-arm64.dmg`;
              const downloadUrl = `https://github.com/jheroy/Redmine-desktop/releases/download/v${version}/${dmgFileName}`;
              const downloadPath = path.join(app.getPath('downloads'), dmgFileName);
              log.info(`macOS: Downloading DMG from ${downloadUrl}`);
              sendToRenderer('download-progress', { percent: 0, bytesPerSecond: 0, transferred: 0, total: 0 });
              try {
                  await downloadFile(downloadUrl, downloadPath, (progress) => {
                      sendToRenderer('download-progress', progress);
                  });
                  log.info(`DMG downloaded to ${downloadPath}`);
                  downloadedDmgPath = downloadPath;
                  sendToRenderer('update-downloaded', { version: version, dmgPath: downloadPath });
                  return { success: true, dmgPath: downloadPath };
              } catch (downloadError: any) {
                  log.error('Failed to download DMG:', downloadError);
                  await shell.openExternal('https://github.com/jheroy/Redmine-desktop/releases/latest');
                  sendToRenderer('update-error', { message: `...: ${downloadError.message}` });
                  return { success: false, error: downloadError.message };
              }
          }
          log.info('Starting update download...');
          await autoUpdater.downloadUpdate();
          return { success: true };
      } catch (error: any) {
          log.error('Failed to download update:', error);
          sendToRenderer('update-error', { message: error.message });
          return { success: false, error: error.message };
      }
  });
  \<close>
  The environment of a call: whether \<open>shell.openExternal\<close> and
  \<open>autoUpdater.downloadUpdate\<close> reject, which URLs \<open>https.get\<close> refuses, and the events
  and the time the downloader meets.
  The answer is \<open>None\<close> while the handler still waits for the downloader.
\<close>

record download_env =
  openExternal_error :: "string option"
  downloadUpdate_error :: "string option"
  https_get :: "string \<Rightarrow> string option"
  net_events :: "net_event list"
  clock :: int

definition progress_val :: "progress \<Rightarrow> jsval" where
  "progress_val p =
     JObj [(''percent'', JNum (percent p)), (''bytesPerSecond'', JNum (bytesPerSecond p)),
           (''transferred'', JNum (of_nat (transferred p))), (''total'', JNum (of_nat (total p)))]"

definition download_failed :: "string \<Rightarrow> updater \<Rightarrow> jsval \<times> updater" where
  \<comment> \<open>the outer \<open>catch\<close>\<close>
  "download_failed message s =
     (failure message,
      sendToRenderer ''update-error'' (JObj [(''message'', JStr message)])
        (log_error [''Failed to download update:'', message] s))"

definition openExternal :: "string \<Rightarrow> updater \<Rightarrow> updater" where
  "openExternal url s = s\<lparr>opened := opened s @ [url]\<rparr>"

definition path_join :: "string \<Rightarrow> string \<Rightarrow> string" where
  "path_join dir name = dir @ ''/'' @ name"

definition dmg_settled ::
    "download_env \<Rightarrow> string \<Rightarrow> string \<Rightarrow> unit promise \<Rightarrow> updater \<Rightarrow> jsval \<times> updater" where
  \<comment> \<open>what follows \<open>await downloadFile(...)\<close> once its promise is settled\<close>
  "dmg_settled env ver downloadPath result s =
     (case result of
        Rejected message \<Rightarrow>
          (let s1 = openExternal ''https://github.com/jheroy/Redmine-desktop/releases/latest''
                      (log_error [''Failed to download DMG:'', message] s)
           in case openExternal_error env of
                Some e \<Rightarrow> download_failed e s1
              | None \<Rightarrow>
                  (failure message,
                   sendToRenderer ''update-error''
                     (JObj [(''message'', JStr (msg_download_failed @ message))]) s1))
      | _ \<Rightarrow>
          (JObj [(''success'', JBool True), (''dmgPath'', JStr downloadPath)],
           sendToRenderer ''update-downloaded''
             (JObj [(''version'', JStr ver), (''dmgPath'', JStr downloadPath)])
             ((log_info [''DMG downloaded to '' @ downloadPath] s)
                \<lparr>downloadedDmgPath := Some downloadPath\<rparr>)))"

definition dmg_step ::
    "download_env \<Rightarrow> string \<Rightarrow> string \<Rightarrow> download \<times> updater \<times> jsval option \<Rightarrow> net_event
      \<Rightarrow> download \<times> updater \<times> jsval option" where
  \<comment> \<open>one event of the download: new progress goes to the renderer, and the handler goes
      on when the promise settles\<close>
  "dmg_step env ver downloadPath st ev =
     (case st of (d, s, answer) \<Rightarrow>
        let d' = dl_step (https_get env) d ev;
            s1 = foldl (\<lambda>s p. sendToRenderer ''download-progress'' (progress_val p) s) s
                   (drop (length (reported d)) (reported d'))
        in if completion d = Pending \<and> completion d' \<noteq> Pending then
             (case dmg_settled env ver downloadPath (completion d') s1 of
                (r, s2) \<Rightarrow> (d', s2, Some r))
           else (d', s1, answer))"

definition download_update :: "download_env \<Rightarrow> updater \<Rightarrow> jsval option \<times> updater" where
  "download_update env s =
     (if isDev s then
        let s1 = openExternal ''https://github.com/jheroy/Redmine-desktop/releases''
                   (log_info [''Dev mode: opening releases page instead of downloading''] s)
        in case openExternal_error env of
             Some e \<Rightarrow> (case download_failed e s1 of (r, s2) \<Rightarrow> (Some r, s2))
           | None \<Rightarrow>
               (Some (failure ''Dev mode - opened releases page''),
                sendToRenderer ''update-error'' (JObj [(''message'', JStr msg_dev_download)]) s1)
      else if platform s = ''darwin'' \<and> latestUpdateInfo s \<noteq> None then
        (case latestUpdateInfo s of
           None \<Rightarrow> (None, s)
         | Some info \<Rightarrow>
             let ver = version info;
                 dmgFileName = ''Redmine-'' @ ver @ ''-arm64.dmg'';
                 downloadUrl = ''https://github.com/jheroy/Redmine-desktop/releases/download/v''
                               @ ver @ ''/'' @ dmgFileName;
                 downloadPath = path_join (downloadsDir s) dmgFileName;
                 s1 = sendToRenderer ''download-progress''
                        (JObj [(''percent'', JNum 0), (''bytesPerSecond'', JNum 0),
                               (''transferred'', JNum 0), (''total'', JNum 0)])
                        (log_info [''macOS: Downloading DMG from '' @ downloadUrl] s);
                 d0 = downloadFile (https_get env) downloadUrl downloadPath (clock env);
                 start = (if completion d0 = Pending then (d0, s1, None)
                          else case dmg_settled env ver downloadPath (completion d0) s1 of
                                 (r, s2) \<Rightarrow> (d0, s2, Some r))
             in case foldl (dmg_step env ver downloadPath) start (net_events env) of
                  (d, s2, answer) \<Rightarrow> (answer, s2))
      else
        let s1 = (log_info [''Starting update download...''] s)\<lparr>feedDownloads := Suc (feedDownloads s)\<rparr>
        in case downloadUpdate_error env of
             Some e \<Rightarrow> (case download_failed e s1 of (r, s2) \<Rightarrow> (Some r, s2))
           | None \<Rightarrow> (Some (JObj [(''success'', JBool True)]), s1))"

text \<open>
  \<^verbatim>\<open>
  ipcMain.handle('install-update', async () => {
      try {
          if (isDev) {
              sendToRenderer('update-error', { message: '...' });
              return { success: false, error: 'Cannot install in dev mode' };
          }
          if (process.platform === 'darwin' && downloadedDmgPath) {
              log.info(`Opening DMG: ${downloadedDmgPath}`);
              shell.openPath(downloadedDmgPath).then((error) => {
                  if (error) { log.error('Failed to open DMG:', error); }
              });
              setTimeout(() => { ... app.quit(); }, 1500);
              return { success: true };
          }
          log.info('Installing update and restarting...');
          setTimeout(() => { ... autoUpdater.quitAndInstall(false, true) ... }, 500);
          return { success: true };
      } catch (error: any) { ... }
  });
  \<close>
  \<open>shell.openPath\<close> resolves with an error text, empty when the path was opened.
\<close>

definition install_update :: "string \<Rightarrow> updater \<Rightarrow> jsval \<times> updater" where
  "install_update openPath_error s =
     (if isDev s then
        (failure ''Cannot install in dev mode'',
         sendToRenderer ''update-error'' (JObj [(''message'', JStr msg_dev_install)]) s)
      else if platform s = ''darwin''
              \<and> (case downloadedDmgPath s of None \<Rightarrow> False | Some p \<Rightarrow> p \<noteq> []) then
        (case downloadedDmgPath s of
           None \<Rightarrow> (JObj [(''success'', JBool True)], s)
         | Some p \<Rightarrow>
             let s1 = openExternal p (log_info [''Opening DMG: '' @ p] s);
                 s2 = (if openPath_error \<noteq> [] then log_error [''Failed to open DMG:'', openPath_error] s1
                       else s1);
                 (h, s3) = setTimer Timeout QuitApp (Fin 1500) s2
             in (JObj [(''success'', JBool True)], s3))
      else
        let s1 = log_info [''Installing update and restarting...''] s;
            (h, s2) = setTimer Timeout QuitAndInstall (Fin 500) s1
        in (JObj [(''success'', JBool True)], s2))"

section \<open>The fallback release source\<close>

text \<open>
  \<^verbatim>\<open>
  function fetchLatestReleaseFromGitHub(): Promise<{ version: string; releaseDate: string;
                                                     releaseNotes: string; releaseName: string }> {
      return new Promise((resolve, reject) => {
          const request = net.request({
              method: 'GET', protocol: 'https:', hostname: 'api.github.com',
              path: '/repos/jheroy/Redmine-desktop/releases/latest',
          });
          request.setHeader('User-Agent', 'Redmine-Desktop-App/1.0');
          request.setHeader('Accept', 'application/vnd.github.v3+json');
          let data = '';
          let statusCode = 0;
          request.on('response', (response) => {
              statusCode = response.statusCode;
              response.on('data', (chunk: Buffer) => { data += chunk.toString(); });
              response.on('end', () => {
                  try {
                      if (statusCode === 200) {
                          const release = JSON.parse(data);
                          resolve({
                              version: release.tag_name?.replace(/^v/, '') || release.name,
                              releaseDate: release.published_at,
                              releaseNotes: release.body || '',
                              releaseName: release.name
                          });
                      } else if (statusCode === 404) {
                          reject(new Error('No releases found'));
                      } else {
                          log.error('GitHub API response:', statusCode, data.substring(0, 200));
                          reject(new Error(`GitHub API error: ${statusCode}`));
                      }
                  } catch (e) {
                      reject(e);
                  }
              });
              response.on('error', (error: Error) => { reject(error); });
          });
          request.on('error', (error: Error) => {
              log.error('Request error:', error);
              reject(error);
          });
          setTimeout(() => {
              request.abort();
              reject(new Error('Request timeout'));
          }, 15000);
          request.end();
      });
  }
  \<close>
  As for the downloader, the model is the state of the closure and one step per event.
  \<open>JSON.parse\<close> is a parameter: a function from the body to the parsed value, or to the
  message of the error it throws. An error is the text of its message.
\<close>

fun truthy :: "jsval \<Rightarrow> bool" where
  "truthy JUndefined = False"
| "truthy JNull = False"
| "truthy (JBool b) = b"
| "truthy (JNum n) = (n \<noteq> 0)"
| "truthy (JStr s) = (s \<noteq> [])"
| "truthy (JArr xs) = True"
| "truthy (JObj fs) = True"

definition or_else :: "jsval \<Rightarrow> jsval \<Rightarrow> jsval" where
  \<comment> \<open>\<open>a || b\<close>\<close>
  "or_else a b = (if truthy a then a else b)"

fun get_prop :: "jsval \<Rightarrow> string \<Rightarrow> jsval" where
  \<comment> \<open>\<open>v.key\<close> for a parsed value that is not \<open>null\<close>, for the keys read here\<close>
  "get_prop (JObj fs) key = (case map_of fs key of None \<Rightarrow> JUndefined | Some x \<Rightarrow> x)"
| "get_prop v key = JUndefined"

fun strip_v :: "string \<Rightarrow> string" where
  \<comment> \<open>\<open>s.replace(/^v/, '')\<close>\<close>
  "strip_v [] = []"
| "strip_v (c # cs) = (if c = CHR ''v'' then cs else c # cs)"

definition bare_tag :: "jsval \<Rightarrow> string + jsval" where
  \<comment> \<open>\<open>tag?.replace(/^v/, '')\<close>: \<open>undefined\<close> for a missing tag; a tag that is not a string
      has no \<open>replace\<close>, and calling it throws\<close>
  "bare_tag tag =
     (case tag of
        JUndefined \<Rightarrow> Inr JUndefined
      | JNull \<Rightarrow> Inr JUndefined
      | JStr t \<Rightarrow> Inr (JStr (strip_v t))
      | _ \<Rightarrow> Inl ''release.tag_name?.replace is not a function'')"

definition release_info :: "jsval \<Rightarrow> string + jsval" where
  \<comment> \<open>the object passed to \<open>resolve\<close>, or the error thrown while it is built\<close>
  "release_info release =
     (if release = JNull \<or> release = JUndefined then
        Inl ''Cannot read properties of null (reading 'tag_name')''
      else case bare_tag (get_prop release ''tag_name'') of
        Inl e \<Rightarrow> Inl e
      | Inr bare \<Rightarrow>
          Inr (JObj [(''version'', or_else bare (get_prop release ''name'')),
                     (''releaseDate'', get_prop release ''published_at''),
                     (''releaseNotes'', or_else (get_prop release ''body'') (JStr [])),
                     (''releaseName'', get_prop release ''name'')]))"

datatype fetch_event =
    FResponse nat \<comment> \<open>\<open>'response'\<close> of the request, with its status code\<close>
  | FData string \<comment> \<open>\<open>'data'\<close> of the response\<close>
  | FEnd \<comment> \<open>\<open>'end'\<close> of the response\<close>
  | FResponseError string \<comment> \<open>\<open>'error'\<close> of the response\<close>
  | FRequestError string \<comment> \<open>\<open>'error'\<close> of the request\<close>
  | FTimer \<comment> \<open>the timer set by \<open>setTimeout\<close> fires\<close>

record fetch =
  request :: "(string \<times> string) list" \<comment> \<open>the options and headers of the request\<close>
  data :: string
  statusCode :: nat
  responded :: bool \<comment> \<open>the response arrived: its callbacks are registered\<close>
  timer_ms :: "int option" \<comment> \<open>the delay of the timer, while it is pending\<close>
  aborted :: bool \<comment> \<open>\<open>request.abort()\<close> was called\<close>
  fetch_log :: "(level \<times> string list) list"
  result :: "jsval promise"

definition fetchLatestReleaseFromGitHub :: fetch where
  \<comment> \<open>the state when the function returns its promise\<close>
  "fetchLatestReleaseFromGitHub =
     \<lparr>request = [(''method'', ''GET''), (''protocol'', ''https:''), (''hostname'', ''api.github.com''),
                 (''path'', ''/repos/jheroy/Redmine-desktop/releases/latest''),
                 (''User-Agent'', ''Redmine-Desktop-App/1.0''),
                 (''Accept'', ''application/vnd.github.v3+json'')],
      data = [], statusCode = 0, responded = False, timer_ms = Some 15000, aborted = False,
      fetch_log = [], result = Pending\<rparr>"

definition reject :: "string \<Rightarrow> fetch \<Rightarrow> fetch" where
  "reject e f = f\<lparr>result := settle (Rejected e) (result f)\<rparr>"

definition resolve :: "jsval \<Rightarrow> fetch \<Rightarrow> fetch" where
  "resolve v f = f\<lparr>result := settle (Resolved v) (result f)\<rparr>"

definition on_end :: "(string \<Rightarrow> string + jsval) \<Rightarrow> fetch \<Rightarrow> fetch" where
  "on_end JSON_parse f =
     (if statusCode f = 200 then
        (case JSON_parse (data f) of
           Inl e \<Rightarrow> reject e f
         | Inr release \<Rightarrow>
             (case release_info release of
                Inl e \<Rightarrow> reject e f
              | Inr info \<Rightarrow> resolve info f))
      else if statusCode f = 404 then reject ''No releases found'' f
      else
        reject (''GitHub API error: '' @ showNat (statusCode f))
          (f\<lparr>fetch_log := fetch_log f @
                [(Error, [''GitHub API response:'', showNat (statusCode f), take 200 (data f)])]\<rparr>))"

fun fetch_step :: "(string \<Rightarrow> string + jsval) \<Rightarrow> fetch \<Rightarrow> fetch_event \<Rightarrow> fetch" where
  "fetch_step JSON_parse f (FResponse code) = f\<lparr>statusCode := code, responded := True\<rparr>"
| "fetch_step JSON_parse f (FData chunk) = (if responded f then f\<lparr>data := data f @ chunk\<rparr> else f)"
| "fetch_step JSON_parse f FEnd = (if responded f then on_end JSON_parse f else f)"
| "fetch_step JSON_parse f (FResponseError e) = (if responded f then reject e f else f)"
| "fetch_step JSON_parse f (FRequestError e) =
     reject e (f\<lparr>fetch_log := fetch_log f @ [(Error, [''Request error:'', e])]\<rparr>)"
| "fetch_step JSON_parse f FTimer =
     (case timer_ms f of
        None \<Rightarrow> f
      | Some ms \<Rightarrow> reject ''Request timeout'' (f\<lparr>timer_ms := None, aborted := True\<rparr>))"

definition fetch_run :: "(string \<Rightarrow> string + jsval) \<Rightarrow> fetch_event list \<Rightarrow> fetch" where
  "fetch_run JSON_parse evs = foldl (fetch_step JSON_parse) fetchLatestReleaseFromGitHub evs"

definition answered :: "nat \<Rightarrow> string list \<Rightarrow> fetch_event list" where
  \<comment> \<open>a complete response: the status, the body in chunks, the end\<close>
  "answered code chunks = FResponse code # map FData chunks @ [FEnd]"

text \<open>Three bodies a server may send with status 200, and what \<open>JSON.parse\<close> makes of
  them: a release tagged \<open>v1.4.2\<close>, a release whose tag is just \<open>v\<close>, and a page that is
  not JSON.\<close>

definition body_release :: string where
  \<open>body_release =
     ''{"tag_name":"v1.4.2","name":"Redmine 1.4.2","published_at":"2024-05-01T08:00:00Z","body":"Fixes"}''\<close>

definition body_tag_v :: string where
  \<open>body_tag_v = ''{"tag_name":"v","name":"Nightly","published_at":"2024-01-01T00:00:00Z"}''\<close>

definition body_html :: string where
  "body_html = ''<html>Sign in to the network</html>''"

definition parse_examples :: "string \<Rightarrow> string + jsval" where
  "parse_examples body =
     (if body = body_release then
        Inr (JObj [(''tag_name'', JStr ''v1.4.2''), (''name'', JStr ''Redmine 1.4.2''),
                   (''published_at'', JStr ''2024-05-01T08:00:00Z''), (''body'', JStr ''Fixes'')])
      else if body = body_tag_v then
        Inr (JObj [(''tag_name'', JStr ''v''), (''name'', JStr ''Nightly''),
                   (''published_at'', JStr ''2024-01-01T00:00:00Z'')])
      else Inl ''Unexpected token < in JSON at position 0'')"

section \<open>Properties of the version comparator\<close>

lemma splitDot_nonempty: "splitDot s \<noteq> []"
  by (induction s) (auto split: list.splits)


lemma orZero_not_NaN: "orZero x \<noteq> NaN"
  by (cases x rule: orZero.cases) auto

lemma seq_not_NaN: "seq xs i \<noteq> NaN"
  by (simp add: seq_def orZero_not_NaN)

lemma seq_beyond: "length xs \<le> i \<Longrightarrow> seq xs i = Fin 0"
  by (simp add: seq_def at_index_def)

lemma js_gt_irrefl: "\<not> js_gt a a"
  by (cases a) auto

lemma js_gt_asym: "js_gt a b \<Longrightarrow> \<not> js_gt b a"
  by (cases a; cases b) auto

lemma js_gt_trans: "js_gt a b \<Longrightarrow> js_gt b c \<Longrightarrow> js_gt a c"
  by (cases a; cases b; cases c) auto

lemma js_gt_total: "a \<noteq> NaN \<Longrightarrow> b \<noteq> NaN \<Longrightarrow> js_gt a b \<or> a = b \<or> js_gt b a"
  by (cases a; cases b) auto


lemma decides_step:
  assumes "seq ls i = seq cs i"
  shows "(\<exists>k. decides ls cs i k) = (\<exists>k. decides ls cs (Suc i) k)"
proof
  assume "\<exists>k. decides ls cs i k"
  then obtain k where k: "decides ls cs i k" ..
  have "k \<noteq> i" using k assms js_gt_irrefl by (auto simp: decides_def)
  then have "decides ls cs (Suc i) k" using k by (auto simp: decides_def)
  then show "\<exists>k. decides ls cs (Suc i) k" ..
next
  assume "\<exists>k. decides ls cs (Suc i) k"
  then obtain k where k: "decides ls cs (Suc i) k" ..
  have "decides ls cs i k"
    unfolding decides_def
  proof (intro conjI allI impI)
    show "i \<le> k" using k by (simp add: decides_def)
    show "js_gt (seq ls k) (seq cs k)" using k by (simp add: decides_def)
    fix j assume j: "i \<le> j \<and> j < k"
    show "seq ls j = seq cs j"
    proof (cases "j = i")
      case True then show ?thesis using assms by simp
    next
      case False
      then have "Suc i \<le> j \<and> j < k" using j by simp
      then show ?thesis using k by (simp add: decides_def)
    qed
  qed
  then show "\<exists>k. decides ls cs i k" ..
qed

lemma isNewer_loop_decides: "isNewer_loop ls cs i = (\<exists>k. decides ls cs i k)"
proof (induction ls cs i rule: isNewer_loop.induct)
  case (1 ls cs i)
  show ?case
  proof (cases "i < max (length ls) (length cs)")
    case False
    then have "\<And>k. i \<le> k \<Longrightarrow> seq ls k = Fin 0 \<and> seq cs k = Fin 0"
      by (simp add: seq_beyond)
    then have "\<not> (\<exists>k. decides ls cs i k)"
      by (auto simp: decides_def)
    moreover have "\<not> isNewer_loop ls cs i"
      using False by (subst isNewer_loop.simps) simp
    ultimately show ?thesis by simp
  next
    case True
    consider (gt) "js_gt (seq ls i) (seq cs i)"
      | (lt) "\<not> js_gt (seq ls i) (seq cs i)" "js_gt (seq cs i) (seq ls i)"
      | (eq) "\<not> js_gt (seq ls i) (seq cs i)" "\<not> js_gt (seq cs i) (seq ls i)"
      by blast
    then show ?thesis
    proof cases
      case gt
      then have "decides ls cs i i" by (auto simp: decides_def)
      moreover have "isNewer_loop ls cs i"
        using True gt by (subst isNewer_loop.simps) (simp add: seq_def)
      ultimately show ?thesis by blast
    next
      case lt
      have "\<not> isNewer_loop ls cs i"
        using True lt by (subst isNewer_loop.simps) (simp add: seq_def js_lt_def)
      moreover have "\<not> (\<exists>k. decides ls cs i k)"
      proof
        assume "\<exists>k. decides ls cs i k"
        then obtain k where k: "decides ls cs i k" ..
        show False
        proof (cases "k = i")
          case True then show ?thesis using k lt by (simp add: decides_def)
        next
          case False
          then have "seq ls i = seq cs i" using k by (simp add: decides_def)
          then show ?thesis using lt js_gt_irrefl by simp
        qed
      qed
      ultimately show ?thesis by simp
    next
      case eq
      then have same: "seq ls i = seq cs i"
        using js_gt_total [OF seq_not_NaN seq_not_NaN, of ls i cs i] by blast
      have "isNewer_loop ls cs i = isNewer_loop ls cs (Suc i)"
        using True eq by (subst isNewer_loop.simps) (simp add: seq_def js_lt_def)
      also have "\<dots> = (\<exists>k. decides ls cs (Suc i) k)"
        using "1.IH" [OF True refl refl] eq by (simp add: seq_def js_lt_def)
      also have "\<dots> = (\<exists>k. decides ls cs i k)"
        using decides_step [OF same] by simp
      finally show ?thesis .
    qed
  qed
qed

lemma digit_not_ws: "isDigit c \<Longrightarrow> \<not> isWS c"
  by (auto simp: isDigit_def isWS_def)

lemma trimWS_digits:
  assumes "s \<noteq> []" "list_all isDigit s"
  shows "trimWS s = s"
proof -
  have h: "\<not> isWS (hd s)" using assms by (cases s) (auto simp: digit_not_ws)
  have l: "\<not> isWS (hd (rev s))"
    using assms by (simp add: hd_rev list_all_iff digit_not_ws)
  have "dropWhile isWS s = s" using assms h by (cases s) auto
  moreover have "dropWhile isWS (rev s) = rev s" using assms l by (cases "rev s") auto
  ultimately show ?thesis by (simp add: trimWS_def)
qed

lemma digit_chars:
  "isDigit c \<Longrightarrow> c \<noteq> CHR ''x'' \<and> c \<noteq> CHR ''X'' \<and> c \<noteq> CHR ''o'' \<and> c \<noteq> CHR ''O''
     \<and> c \<noteq> CHR ''b'' \<and> c \<noteq> CHR ''B'' \<and> c \<noteq> CHR ''+'' \<and> c \<noteq> CHR ''-'' \<and> c \<noteq> CHR ''I''"
  by (auto simp: isDigit_def)

lemma strUnsignedDecimal_digits:
  assumes "s \<noteq> []" "list_all isDigit s"
  shows "strUnsignedDecimal s = roundDouble (of_nat (decNat s))"
proof -
  have inf: "s \<noteq> ''Infinity''" using assms by (auto simp: isDigit_def)
  have tw: "takeWhile isDigit s = s" and dw: "dropWhile isDigit s = []"
    using assms by (simp_all add: list_all_iff)
  show ?thesis using assms(1) inf by (simp add: strUnsignedDecimal_def tw dw)
qed

lemma strDecimal_digits:
  assumes "s \<noteq> []" "list_all isDigit s"
  shows "strDecimal s = roundDouble (of_nat (decNat s))"
  using assms strUnsignedDecimal_digits [OF assms] digit_chars
  by (cases s) (auto simp: strDecimal_def)

lemma Number_digits:
  assumes "s \<noteq> []" "list_all isDigit s"
  shows "Number s = roundDouble (of_nat (decNat s))"
proof -
  have t: "trimWS s = s" using assms by (rule trimWS_digits)
  show ?thesis
  proof (cases s)
    case Nil then show ?thesis using assms by simp
  next
    case (Cons a r)
    show ?thesis
    proof (cases r)
      case Nil
      then show ?thesis using Cons t strDecimal_digits [OF assms] by (simp add: Number_def)
    next
      case (Cons b ds)
      have "isDigit b" using assms \<open>s = a # r\<close> Cons by simp
      then show ?thesis
        using Cons \<open>s = a # r\<close> t strDecimal_digits [OF assms] digit_chars [of b]
        by (simp add: Number_def)
    qed
  qed
qed

lemma roundDouble_exact: "n \<le> 2 ^ 53 \<Longrightarrow> roundDouble (of_nat n) = Fin (of_nat n)"
proof -
  assume "n \<le> 2 ^ 53"
  then have "(of_nat n :: rat) \<le> of_nat (2 ^ 53)" by (simp only: of_nat_le_iff)
  then have "\<bar>of_nat n :: rat\<bar> \<le> 2 ^ 53" by simp
  then show ?thesis by (simp add: roundDouble_def)
qed


lemma seq_fin:
  "seq (map fin xs) i = (if i < length xs then fin (xs ! i) else Fin 0)"
  by (auto simp: seq_def at_index_def fin_def)

lemma isNewer_loop_spec:
  "isNewer_loop (map fin xs) (map fin ys) i = spec_isNewer (drop i xs) (drop i ys)"
proof (induction "map fin xs" "map fin ys" i rule: isNewer_loop.induct)
  case (1 i)
  show ?case
  proof (cases "i < max (length xs) (length ys)")
    case False
    then show ?thesis by (subst isNewer_loop.simps) simp
  next
    case True
    let ?l = "seq (map fin xs) i" and ?c = "seq (map fin ys) i"
    have unfold: "isNewer_loop (map fin xs) (map fin ys) i =
        (if js_gt ?l ?c then True else if js_gt ?c ?l then False
         else isNewer_loop (map fin xs) (map fin ys) (Suc i))"
      using True by (subst isNewer_loop.simps) (simp add: seq_def js_lt_def Let_def)
    have IH: "\<not> js_gt ?l ?c \<Longrightarrow> \<not> js_gt ?c ?l \<Longrightarrow>
        isNewer_loop (map fin xs) (map fin ys) (Suc i) = spec_isNewer (drop (Suc i) xs) (drop (Suc i) ys)"
      using "1.hyps" [OF _ refl refl] True by (simp add: seq_def js_lt_def)
    show ?thesis
    proof (cases "i < length xs")
      case lx: True
      then have dx: "drop i xs = xs ! i # drop (Suc i) xs" by (simp add: Cons_nth_drop_Suc)
      show ?thesis
      proof (cases "i < length ys")
        case ly: True
        then have dy: "drop i ys = ys ! i # drop (Suc i) ys" by (simp add: Cons_nth_drop_Suc)
        show ?thesis using unfold IH lx ly
          by (simp add: dx dy seq_fin fin_def)
      next
        case ly: False
        then have dy: "drop i ys = []" "drop (Suc i) ys = []" by simp_all
        show ?thesis using unfold IH lx ly
          by (simp add: dx dy seq_fin fin_def)
      qed
    next
      case lx: False
      then have dx: "drop i xs = []" "drop (Suc i) xs = []" by simp_all
      have ly: "i < length ys" using True lx by simp
      then have dy: "drop i ys = ys ! i # drop (Suc i) ys" by (simp add: Cons_nth_drop_Suc)
      show ?thesis using unfold IH lx ly
        by (simp add: dx dy seq_fin fin_def)
    qed
  qed
qed

lemma map_Number_dotted:
  assumes "dotted_numeric v" "\<forall>s \<in> set (splitDot v). decNat s \<le> 2 ^ 53"
  shows "map Number (splitDot v) = map fin (map decNat (splitDot v))"
  using assms
  by (auto simp: dotted_numeric_def list_all_iff Number_digits roundDouble_exact fin_def)


lemma isNewerVersion_decides:
  "isNewerVersion a b = (\<exists>k. decides (map Number (splitDot a)) (map Number (splitDot b)) 0 k)"
  by (simp add: isNewerVersion_def isNewer_loop_decides)

lemma decides_irrefl: "seq ls = seq cs \<Longrightarrow> \<not> decides ls cs i k"
  by (simp add: decides_def js_gt_irrefl)

lemma decides_asym:
  assumes "decides ls cs 0 k" "decides cs ls 0 k'"
  shows False
proof -
  consider "k < k'" | "k = k'" | "k' < k" by linarith
  then show False
  proof cases
    case 1
    then have "seq cs k = seq ls k" using assms(2) by (simp add: decides_def)
    then show False using assms(1) js_gt_irrefl by (simp add: decides_def)
  next
    case 2
    then show False using assms js_gt_asym by (auto simp: decides_def)
  next
    case 3
    then have "seq ls k' = seq cs k'" using assms(1) by (simp add: decides_def)
    then show False using assms(2) js_gt_irrefl by (simp add: decides_def)
  qed
qed

lemma decides_trans:
  assumes "decides as bs 0 k" "decides bs cs 0 k'"
  shows "decides as cs 0 (min k k')"
proof -
  have pre: "\<forall>j. j < min k k' \<longrightarrow> seq as j = seq cs j"
    using assms by (simp add: decides_def)
  consider "k < k'" | "k = k'" | "k' < k" by linarith
  then have "js_gt (seq as (min k k')) (seq cs (min k k'))"
  proof cases
    case 1
    then have "seq bs k = seq cs k" using assms(2) by (simp add: decides_def)
    then show ?thesis using 1 assms(1) by (simp add: decides_def min_def)
  next
    case 2
    then show ?thesis using assms js_gt_trans by (auto simp: decides_def)
  next
    case 3
    then have "seq as k' = seq bs k'" using assms(1) by (simp add: decides_def)
    then show ?thesis using 3 assms(2) by (simp add: decides_def min_def)
  qed
  then show ?thesis using pre by (simp add: decides_def)
qed

lemma undecided_same:
  assumes "\<not> (\<exists>k. decides ls cs 0 k)" "\<not> (\<exists>k. decides cs ls 0 k)"
  shows "seq ls = seq cs"
proof
  fix k
  show "seq ls k = seq cs k"
  proof (induction k rule: less_induct)
    case (less k)
    have "\<not> decides ls cs 0 k" and "\<not> decides cs ls 0 k"
      using assms by blast+
    then have "\<not> js_gt (seq ls k) (seq cs k)" and "\<not> js_gt (seq cs k) (seq ls k)"
      using less by (simp_all add: decides_def)
    then show ?case
      using js_gt_total [OF seq_not_NaN seq_not_NaN, of ls k cs k] by blast
  qed
qed

lemma splitDot_append_dot: "splitDot (a @ CHR ''.'' # b) = splitDot a @ splitDot b"
proof (induction a)
  case Nil
  show ?case by simp
next
  case (Cons c a)
  obtain s ss where "splitDot a = s # ss" using splitDot_nonempty [of a] by (cases "splitDot a") auto
  then show ?case using Cons by simp
qed

lemma splitDot_trailing_zeros:
  "splitDot (u @ trailing_zeros n) = splitDot u @ replicate n ''0''"
proof (induction n arbitrary: u)
  case 0
  show ?case by (simp add: trailing_zeros_def)
next
  case (Suc n)
  have "u @ trailing_zeros (Suc n) = (u @ ''.0'') @ trailing_zeros n"
    by (simp add: trailing_zeros_def)
  then have "splitDot (u @ trailing_zeros (Suc n)) = splitDot (u @ ''.0'') @ replicate n ''0''"
    using Suc [of "u @ ''.0''"] by simp
  also have "splitDot (u @ ''.0'') = splitDot u @ [''0'']"
    using splitDot_append_dot [of u "''0''"] by simp
  finally show ?case by (simp add: replicate_append_same)
qed

lemma Number_zero: "Number ''0'' = Fin 0"
  by code_simp

lemma seq_trailing_zeros: "seq (xs @ replicate n (Fin 0)) = seq xs"
proof
  fix i
  show "seq (xs @ replicate n (Fin 0)) i = seq xs i"
    by (auto simp: seq_def at_index_def nth_append)
qed

lemma seq_parts_trailing_zeros:
  "seq (map Number (splitDot (u @ trailing_zeros n))) = seq (map Number (splitDot u))"
  by (simp add: splitDot_trailing_zeros Number_zero seq_trailing_zeros)

text \<open>
  Claim C8. \<open>isNewerVersion\<close> is a strict weak ordering on version strings (on all
  strings, whatever their segments are): no version is newer than itself, two versions
  are never newer than each other, newer-than is transitive, being mutually not newer is
  transitive, and two versions that differ only by trailing \<open>.0\<close> segments are mutually
  not newer.
\<close>

theorem isNewerVersion_strict_weak_order:
  "\<not> isNewerVersion v v
   \<and> \<not> (isNewerVersion a b \<and> isNewerVersion b a)
   \<and> (isNewerVersion a b \<and> isNewerVersion b c \<longrightarrow> isNewerVersion a c)
   \<and> (\<not> isNewerVersion a b \<and> \<not> isNewerVersion b a \<and> \<not> isNewerVersion b c \<and> \<not> isNewerVersion c b
        \<longrightarrow> \<not> isNewerVersion a c \<and> \<not> isNewerVersion c a)
   \<and> \<not> isNewerVersion (v @ trailing_zeros m) (v @ trailing_zeros n)"
proof (intro conjI impI)
  show "\<not> isNewerVersion v v"
    by (simp add: isNewerVersion_decides decides_irrefl)
  show "\<not> (isNewerVersion a b \<and> isNewerVersion b a)"
    using decides_asym by (auto simp: isNewerVersion_decides)
  show "isNewerVersion a c" if "isNewerVersion a b \<and> isNewerVersion b c"
    using that decides_trans unfolding isNewerVersion_decides by blast
  show "\<not> isNewerVersion (v @ trailing_zeros m) (v @ trailing_zeros n)"
    by (simp add: isNewerVersion_decides decides_irrefl seq_parts_trailing_zeros)
next
  assume h: "\<not> isNewerVersion a b \<and> \<not> isNewerVersion b a \<and> \<not> isNewerVersion b c \<and> \<not> isNewerVersion c b"
  have "seq (map Number (splitDot a)) = seq (map Number (splitDot b))"
    using h undecided_same by (simp add: isNewerVersion_decides)
  moreover have "seq (map Number (splitDot b)) = seq (map Number (splitDot c))"
    using h undecided_same by (simp add: isNewerVersion_decides)
  ultimately have same: "seq (map Number (splitDot a)) = seq (map Number (splitDot c))" by simp
  show "\<not> isNewerVersion a c"
    using same by (simp add: isNewerVersion_decides decides_irrefl)
  show "\<not> isNewerVersion c a"
    using same by (simp add: isNewerVersion_decides decides_irrefl)
qed


theorem isNewerVersion_strict_weak_order_witness:
  "isNewerVersion ''1.3'' ''1.2.9'' \<and> isNewerVersion ''1.2.9'' ''1.2'' \<and> isNewerVersion ''1.3'' ''1.2''
   \<and> \<not> isNewerVersion ''1.2.0'' ''1.2'' \<and> \<not> isNewerVersion ''1.2'' ''1.2.0''
   \<and> \<not> isNewerVersion ''1.2'' ''1.2.0.0'' \<and> \<not> isNewerVersion ''1.2.0.0'' ''1.2''
   \<and> \<not> isNewerVersion ''1.2.0'' ''1.2.0.0'' \<and> \<not> isNewerVersion ''1.2.0.0'' ''1.2.0''"
proof -
  have ab: "isNewerVersion ''1.3'' ''1.2.9''" by code_simp
  have bc: "isNewerVersion ''1.2.9'' ''1.2''" by code_simp
  have e1: "\<not> isNewerVersion ''1.2.0'' ''1.2''" by code_simp
  have e2: "\<not> isNewerVersion ''1.2'' ''1.2.0''" by code_simp
  have e3: "\<not> isNewerVersion ''1.2'' ''1.2.0.0''" by code_simp
  have e4: "\<not> isNewerVersion ''1.2.0.0'' ''1.2''" by code_simp
  show ?thesis
    using ab bc e1 e2 e3 e4
      isNewerVersion_strict_weak_order [of _ "''1.3''" "''1.2.9''" "''1.2''"]
      isNewerVersion_strict_weak_order [of _ "''1.2.0''" "''1.2''" "''1.2.0.0''"]
    by blast
qed

text \<open>
  Claim C3, as amended. For dotted version strings whose segments are decimal digit
  strings of value at most \<open>2^53\<close> (the integers a JavaScript number holds exactly),
  \<open>isNewerVersion\<close> is the segment-wise comparison of the specification: segments as
  non-negative integers, missing ones 0, decided at the first segment that differs, false
  when none does. The three examples of the specification hold.
\<close>

theorem isNewerVersion_dotted:
  "(dotted_numeric latest \<and> dotted_numeric current
      \<and> list_all (\<lambda>s. decNat s \<le> 2 ^ 53) (splitDot latest @ splitDot current)
    \<longrightarrow> isNewerVersion latest current
          = spec_isNewer (map decNat (splitDot latest)) (map decNat (splitDot current)))
   \<and> isNewerVersion ''1.2.0'' ''1.2'' = False
   \<and> isNewerVersion ''1.3'' ''1.2.9'' = True
   \<and> isNewerVersion ''2.0'' ''2.0'' = False"
proof (intro conjI impI)
  assume h: "dotted_numeric latest \<and> dotted_numeric current
      \<and> list_all (\<lambda>s. decNat s \<le> 2 ^ 53) (splitDot latest @ splitDot current)"
  then have "map Number (splitDot latest) = map fin (map decNat (splitDot latest))"
    and "map Number (splitDot current) = map fin (map decNat (splitDot current))"
    by (simp_all add: map_Number_dotted list_all_iff)
  then show "isNewerVersion latest current
          = spec_isNewer (map decNat (splitDot latest)) (map decNat (splitDot current))"
    using isNewer_loop_spec [of "map decNat (splitDot latest)" "map decNat (splitDot current)" 0]
    unfolding isNewerVersion_def by (simp only: drop_0)
next
  show "isNewerVersion ''1.2.0'' ''1.2'' = False" by code_simp
  show "isNewerVersion ''1.3'' ''1.2.9'' = True" by code_simp
  show "isNewerVersion ''2.0'' ''2.0'' = False" by code_simp
qed

theorem isNewerVersion_dotted_witness:
  "dotted_numeric ''1.10.0'' \<and> dotted_numeric ''1.9''
   \<and> list_all (\<lambda>s. decNat s \<le> 2 ^ 53) (splitDot ''1.10.0'' @ splitDot ''1.9'')
   \<and> spec_isNewer (map decNat (splitDot ''1.10.0'')) (map decNat (splitDot ''1.9''))
   \<and> isNewerVersion ''1.10.0'' ''1.9''"
proof -
  have d1: "dotted_numeric ''1.10.0''" by (simp add: dotted_numeric_def isDigit_def)
  have d2: "dotted_numeric ''1.9''" by (simp add: dotted_numeric_def isDigit_def)
  have b: "list_all (\<lambda>s. decNat s \<le> 2 ^ 53) (splitDot ''1.10.0'' @ splitDot ''1.9'')"
    by (simp add: decNat_def digitVal_def)
  have s: "spec_isNewer (map decNat (splitDot ''1.10.0'')) (map decNat (splitDot ''1.9''))"
    by (simp add: decNat_def digitVal_def)
  show ?thesis
    using d1 d2 b s isNewerVersion_dotted [of "''1.10.0''" "''1.9''"] by blast
qed

text \<open>
  The claim as stated fails above \<open>2^53\<close>: \<open>Number("9007199254740993")\<close> is the double
  \<open>9007199254740992\<close>, so the candidate \<open>9007199254740993\<close> is not reported newer than
  \<open>9007199254740992\<close>, although its only segment is the greater integer.
\<close>

lemma bitlen_0: "bitlen 0 = 0"
  by (simp add: bitlen.simps)

lemma bitlen_1: "bitlen 1 = 1"
  by (subst bitlen.simps) (simp add: bitlen_0)

lemma bitlen_Suc0: "bitlen (Suc 0) = 1"
  using bitlen_1 by simp

lemma bitlen_numeral: "bitlen (numeral k) = Suc (bitlen (numeral k div 2))"
  by (subst bitlen.simps) simp

lemma bitlen_2_53_1: "bitlen 9007199254740993 = 54"
  by (simp add: bitlen_numeral bitlen_1 bitlen_0 bitlen_Suc0)

lemma ilog2_2_53_1: "ilog2 9007199254740993 = 53"
  by (simp add: ilog2_def bitlen_2_53_1 bitlen_1 bitlen_Suc0 pow2_def)

lemma floor_2_53_1: "\<lfloor>9007199254740993 / 2 :: rat\<rfloor> = 4503599627370496"
  by (simp add: floor_eq_iff)

lemma roundDouble_2_53_1: "roundDouble 9007199254740993 = Fin 9007199254740992"
  by (simp add: roundDouble_def Let_def ilog2_2_53_1 pow2_def floor_2_53_1)

lemma Number_2_53_1: "Number ''9007199254740993'' = Fin 9007199254740992"
proof -
  have "Number ''9007199254740993'' = roundDouble (of_nat (decNat ''9007199254740993''))"
    by (rule Number_digits) (simp_all add: isDigit_def)
  also have "decNat ''9007199254740993'' = 9007199254740993"
    by (simp add: decNat_def digitVal_def)
  finally show ?thesis by (simp add: roundDouble_2_53_1)
qed

lemma Number_2_53: "Number ''9007199254740992'' = Fin 9007199254740992"
proof -
  have "Number ''9007199254740992'' = roundDouble (of_nat (decNat ''9007199254740992''))"
    by (rule Number_digits) (simp_all add: isDigit_def)
  also have "decNat ''9007199254740992'' = 9007199254740992"
    by (simp add: decNat_def digitVal_def)
  finally show ?thesis by (simp add: roundDouble_def)
qed

theorem isNewerVersion_rounds_large_segments:
  "dotted_numeric ''9007199254740993'' \<and> dotted_numeric ''9007199254740992''
   \<and> spec_isNewer (map decNat (splitDot ''9007199254740993'')) (map decNat (splitDot ''9007199254740992''))
   \<and> \<not> isNewerVersion ''9007199254740993'' ''9007199254740992''"
proof -
  have d1: "dotted_numeric ''9007199254740993''" by (simp add: dotted_numeric_def isDigit_def)
  have d2: "dotted_numeric ''9007199254740992''" by (simp add: dotted_numeric_def isDigit_def)
  have s: "spec_isNewer (map decNat (splitDot ''9007199254740993'')) (map decNat (splitDot ''9007199254740992''))"
    by (simp add: decNat_def digitVal_def)
  have "map Number (splitDot ''9007199254740993'') = map Number (splitDot ''9007199254740992'')"
    by (simp add: Number_2_53_1 Number_2_53)
  then have "\<not> isNewerVersion ''9007199254740993'' ''9007199254740992''"
    by (simp only: isNewerVersion_decides decides_irrefl simp_thms)
  then show ?thesis using d1 d2 s by blast
qed

section \<open>Properties of the scheduler and of the settings handler\<close>

lemmas sched_defs = startAutoCheck_def clearTimers_def clearTimer_def getAutoCheckSettings_def
  log_info_def log_info_parts_def setTimer_def Let_def

lemma clearTimers_fields [simp]:
  "isDev (clearTimers s) = isDev s"
  "isFirstStart (clearTimers s) = isFirstStart s"
  "settingsStore (clearTimers s) = settingsStore s"
  "nextHandle (clearTimers s) = nextHandle s"
  "autoCheckTimer (clearTimers s) = None"
  "initialCheckTimeout (clearTimers s) = None"
  by (auto simp: clearTimers_def clearTimer_def Let_def split: option.splits)

lemma getAutoCheckSettings_clearTimers [simp]:
  "getAutoCheckSettings (clearTimers s) = getAutoCheckSettings s"
  by (simp add: getAutoCheckSettings_def)

lemma timers_clearTimers:
  "timers (clearTimers s) =
     filter (\<lambda>t. Some (handle t) \<noteq> autoCheckTimer s \<and> Some (handle t) \<noteq> initialCheckTimeout s) (timers s)"
  by (auto simp: clearTimers_def clearTimer_def Let_def split: option.splits intro: filter_cong)

lemma startAutoCheck_isFirstStart:
  "isFirstStart (startAutoCheck s) = (isFirstStart s \<and> \<not> armed s)"
  by (auto simp: startAutoCheck_def armed_def log_info_def log_info_parts_def setTimer_def Let_def)

lemma startAutoCheck_initialCheckTimeout:
  "initialCheckTimeout (startAutoCheck s) =
     (if armed s \<and> isFirstStart s then Some (Suc (nextHandle s)) else None)"
  by (auto simp: startAutoCheck_def armed_def log_info_def log_info_parts_def setTimer_def Let_def)

lemma startAutoCheck_autoCheckTimer:
  "autoCheckTimer (startAutoCheck s) = (if armed s then Some (nextHandle s) else None)"
  by (auto simp: startAutoCheck_def armed_def log_info_def log_info_parts_def setTimer_def Let_def)

lemma startAutoCheck_timers:
  "timers (startAutoCheck s) =
     timers (clearTimers s) @
     (if armed s then
        \<lparr>handle = nextHandle s, timer_kind = Interval,
          delay = hours_to_ms (to_number (interval (getAutoCheckSettings s))),
          action = AutoCheckTick\<rparr>
        # (if isFirstStart s then
             [\<lparr>handle = Suc (nextHandle s), timer_kind = Timeout, delay = Fin 10000,
               action = InitialCheck\<rparr>]
           else [])
      else [])"
  by (auto simp: startAutoCheck_def armed_def log_info_def log_info_parts_def setTimer_def Let_def)

lemma startAutoCheck_frame [simp]:
  "settingsStore (startAutoCheck s) = settingsStore s"
  "isDev (startAutoCheck s) = isDev s"
  by (auto simp: startAutoCheck_def log_info_def log_info_parts_def setTimer_def Let_def
      clearTimers_def clearTimer_def split: option.splits)

lemma silentCheck_frame [simp]:
  "isFirstStart (silentCheckForUpdates outcome s) = isFirstStart s"
  "settingsStore (silentCheckForUpdates outcome s) = settingsStore s"
  "isDev (silentCheckForUpdates outcome s) = isDev s"
  by (auto simp: silentCheckForUpdates_def log_info_def log_error_def sendToRenderer_def Let_def
      split: check_outcome.splits option.splits)

lemma run_callback_isFirstStart [simp]:
  "isFirstStart (run_callback env cb s) = isFirstStart s"
  by (cases cb) (auto simp: log_info_def log_error_def sendToRenderer_def Let_def split: option.splits)

lemma fire_isFirstStart [simp]: "isFirstStart (fire env h s) = isFirstStart s"
  by (auto simp: fire_def clearTimer_def split: option.splits)

lemma store_settings_isFirstStart [simp]: "isFirstStart (store_settings p s) = isFirstStart s"
  by (auto simp: store_settings_def Let_def split: option.splits)

lemma lifetime_step_not_first:
  "\<not> isFirstStart s \<Longrightarrow> \<not> isFirstStart (lifetime_step s ev)"
  by (cases ev) (auto simp: set_auto_update_settings_def Let_def startAutoCheck_isFirstStart)

lemma lifetime_not_first: "\<not> isFirstStart s \<Longrightarrow> \<not> isFirstStart (lifetime s evs)"
  unfolding lifetime_def
  by (induction evs arbitrary: s) (auto simp: lifetime_step_not_first)

lemma arms_oneshot_iff: "arms_oneshot s = (isFirstStart s \<and> armed s)"
  by (auto simp: arms_oneshot_def startAutoCheck_initialCheckTimeout)

lemma arms_recurring_iff: "arms_recurring s = armed s"
  by (auto simp: arms_recurring_def startAutoCheck_autoCheckTimer)

lemma eval_packaged_fresh:
  "packaged_fresh = startAutoCheck (loaded_fresh\<lparr>mainWindow := Alive\<rparr>)"
  by (simp add: packaged_fresh_def initUpdater_def loaded_fresh_def)

lemmas example_defs = packaged_disabled_def packaged_fresh_def dev_fresh_def loaded_fresh_def
  initUpdater_def loaded_def store_disabled_def store_fresh_def set_auto_update_settings_def
  store_settings_def

lemma distinct_map_filter': "distinct (map f xs) \<Longrightarrow> distinct (map f (filter P xs))"
  by (induction xs) auto

lemma sched_inv_startAutoCheck:
  assumes "sched_inv s"
  shows "sched_inv (startAutoCheck s)"
proof -
  have lt: "\<And>t. t \<in> set (timers (clearTimers s)) \<Longrightarrow> handle t < nextHandle s"
    and na: "\<And>t. t \<in> set (timers (clearTimers s)) \<Longrightarrow> action t \<noteq> AutoCheckTick"
    and ni: "\<And>t. t \<in> set (timers (clearTimers s)) \<Longrightarrow> action t \<noteq> InitialCheck"
    using assms by (auto simp: timers_clearTimers sched_inv_def)
  have d: "distinct (map handle (timers (clearTimers s)))"
    using assms by (simp add: timers_clearTimers sched_inv_def distinct_map_filter')
  have nh: "nextHandle (startAutoCheck s)
      = (if armed s then (if isFirstStart s then Suc (Suc (nextHandle s)) else Suc (nextHandle s))
         else nextHandle s)"
    by (auto simp: startAutoCheck_def armed_def log_info_def log_info_parts_def setTimer_def Let_def)
  have 1: "\<forall>t \<in> set (timers (startAutoCheck s)). handle t < nextHandle (startAutoCheck s)"
    using lt by (auto simp: startAutoCheck_timers nh less_Suc_eq)
  have 2: "distinct (map handle (timers (startAutoCheck s)))"
    using d by (auto simp: startAutoCheck_timers dest: lt)
  have 3: "\<forall>t \<in> set (timers (startAutoCheck s)).
      action t = AutoCheckTick \<longrightarrow> autoCheckTimer (startAutoCheck s) = Some (handle t)"
    using na by (auto simp: startAutoCheck_timers startAutoCheck_autoCheckTimer)
  have 4: "\<forall>t \<in> set (timers (startAutoCheck s)).
      action t = InitialCheck \<longrightarrow>
        timer_kind t = Timeout \<and> initialCheckTimeout (startAutoCheck s) = Some (handle t)"
    using ni by (auto simp: startAutoCheck_timers startAutoCheck_initialCheckTimeout)
  show ?thesis
    unfolding sched_inv_def using 1 2 3 4 by blast
qed

lemma sched_inv_store_settings: "sched_inv s \<Longrightarrow> sched_inv (store_settings p s)"
  by (auto simp: sched_inv_def store_settings_def Let_def split: option.splits)

lemma silentCheck_sched [simp]:
  "timers (silentCheckForUpdates outcome s) = timers s"
  "nextHandle (silentCheckForUpdates outcome s) = nextHandle s"
  "autoCheckTimer (silentCheckForUpdates outcome s) = autoCheckTimer s"
  "initialCheckTimeout (silentCheckForUpdates outcome s) = initialCheckTimeout s"
  by (auto simp: silentCheckForUpdates_def log_info_def log_error_def sendToRenderer_def Let_def
      split: check_outcome.splits option.splits)

lemma find_handle:
  "find (\<lambda>t. handle t = h) ts = Some t \<Longrightarrow> t \<in> set ts \<and> handle t = h"
  by (induction ts) (auto split: if_splits)

lemma run_callback_sched:
  "timers (run_callback env cb s) = timers s"
  "nextHandle (run_callback env cb s) = nextHandle s"
  "autoCheckTimer (run_callback env cb s) = autoCheckTimer s"
  "initialCheckTimeout (run_callback env cb s)
     = (if cb = InitialCheck then None else initialCheckTimeout s)"
  by (cases cb; simp add: log_info_def log_error_def sendToRenderer_def Let_def split: option.splits)+

lemma fire_sched:
  assumes "find (\<lambda>t. handle t = h) (timers s) = Some t"
  shows "timers (fire env h s)
           = (if timer_kind t = Timeout then filter (\<lambda>u. handle u \<noteq> h) (timers s) else timers s)"
    and "nextHandle (fire env h s) = nextHandle s"
    and "autoCheckTimer (fire env h s) = autoCheckTimer s"
    and "initialCheckTimeout (fire env h s)
           = (if action t = InitialCheck then None else initialCheckTimeout s)"
  using assms by (simp_all add: fire_def run_callback_sched clearTimer_def)

lemma sched_inv_fire:
  assumes "sched_inv s"
  shows "sched_inv (fire env h s)"
proof (cases "find (\<lambda>t. handle t = h) (timers s)")
  case None
  then show ?thesis using assms by (simp add: fire_def)
next
  case (Some t)
  note f = fire_sched [OF Some, of env]
  have t: "t \<in> set (timers s)" "handle t = h"
    using find_handle [OF Some] by simp_all
  have sub: "set (timers (fire env h s)) \<subseteq> set (timers s)"
    by (auto simp: f)
  have 1: "\<forall>u \<in> set (timers (fire env h s)). handle u < nextHandle (fire env h s)"
    using assms sub by (auto simp: sched_inv_def f(2))
  have 2: "distinct (map handle (timers (fire env h s)))"
    using assms by (simp add: sched_inv_def f(1) distinct_map_filter')
  have 3: "\<forall>u \<in> set (timers (fire env h s)).
      action u = AutoCheckTick \<longrightarrow> autoCheckTimer (fire env h s) = Some (handle u)"
    using assms sub by (auto simp: sched_inv_def f(3))
  have 4: "\<forall>u \<in> set (timers (fire env h s)).
      action u = InitialCheck \<longrightarrow>
        timer_kind u = Timeout \<and> initialCheckTimeout (fire env h s) = Some (handle u)"
  proof (intro ballI impI)
    fix u assume u: "u \<in> set (timers (fire env h s))" "action u = InitialCheck"
    then have us: "u \<in> set (timers s)" using sub by blast
    then have k: "timer_kind u = Timeout" "initialCheckTimeout s = Some (handle u)"
      using assms u(2) by (simp_all add: sched_inv_def)
    show "timer_kind u = Timeout \<and> initialCheckTimeout (fire env h s) = Some (handle u)"
    proof (cases "action t = InitialCheck")
      case False
      then show ?thesis using k by (simp add: f(4))
    next
      case True
      then have kt: "timer_kind t = Timeout" "initialCheckTimeout s = Some (handle t)"
        using assms t(1) by (simp_all add: sched_inv_def)
      then have "handle u = h" using k t(2) by simp
      moreover have "handle u \<noteq> h" using u(1) kt(1) by (simp add: f(1))
      ultimately show ?thesis by simp
    qed
  qed
  show ?thesis
    unfolding sched_inv_def using 1 2 3 4 by blast
qed

lemma sched_inv_lifetime: "sched_inv s \<Longrightarrow> sched_inv (lifetime s evs)"
  unfolding lifetime_def
proof (induction evs arbitrary: s)
  case Nil
  then show ?case by simp
next
  case (Cons ev evs)
  have "sched_inv (lifetime_step s ev)"
    using Cons.prems
    by (cases ev)
      (simp_all add: set_auto_update_settings_def Let_def sched_inv_startAutoCheck
        sched_inv_store_settings sched_inv_fire)
  then show ?case using Cons.IH by simp
qed

lemma sched_inv_loaded: "sched_inv (initUpdater win (loaded dev ver plat dir st))"
proof -
  have "sched_inv ((loaded dev ver plat dir st)\<lparr>mainWindow := win\<rparr>)"
    by (simp add: sched_inv_def loaded_def)
  then show ?thesis
    unfolding initUpdater_def by (rule sched_inv_startAutoCheck)
qed

lemma armed_mainWindow [simp]: "armed (s\<lparr>mainWindow := win\<rparr>) = armed s"
  by (simp add: armed_def getAutoCheckSettings_def)

lemma isFirstStart_initUpdater:
  "isFirstStart (initUpdater win (loaded dev ver plat dir st)) = (\<not> armed (loaded dev ver plat dir st))"
  by (simp add: initUpdater_def startAutoCheck_isFirstStart) (simp add: loaded_def)

lemma isFirstStart_lifetime:
  "isFirstStart (lifetime s evs)
     = (isFirstStart s \<and> list_all (\<lambda>r. \<not> armed r) (start_states s evs))"
  unfolding lifetime_def
proof (induction evs arbitrary: s)
  case Nil
  show ?case by simp
next
  case (Cons ev evs)
  show ?case
  proof (cases ev)
    case (SetSettings p)
    then show ?thesis
      using Cons.IH [of "lifetime_step s ev"]
      by (auto simp: set_auto_update_settings_def Let_def startAutoCheck_isFirstStart)
  next
    case (Fires h env)
    then show ?thesis
      using Cons.IH [of "lifetime_step s ev"] by simp
  qed
qed

lemma scheduler_timers_startAutoCheck:
  assumes "sched_inv s"
  shows "scheduler_timers (startAutoCheck s) =
     (if armed s then
        \<lparr>handle = nextHandle s, timer_kind = Interval,
          delay = hours_to_ms (to_number (interval (getAutoCheckSettings s))),
          action = AutoCheckTick\<rparr>
        # (if isFirstStart s then
             [\<lparr>handle = Suc (nextHandle s), timer_kind = Timeout, delay = Fin 10000,
               action = InitialCheck\<rparr>]
           else [])
      else [])"
proof -
  have "\<And>t. t \<in> set (timers (clearTimers s))
          \<Longrightarrow> \<not> (action t = AutoCheckTick \<or> action t = InitialCheck)"
    using assms by (auto simp: timers_clearTimers sched_inv_def)
  then have "filter (\<lambda>t. action t = AutoCheckTick \<or> action t = InitialCheck) (timers (clearTimers s)) = []"
    by (simp add: filter_empty_conv)
  then show ?thesis
    by (simp add: scheduler_timers_def startAutoCheck_timers)
qed

lemma roundDouble_int:
  assumes "\<bar>k\<bar> \<le> 2 ^ 53"
  shows "roundDouble (of_int k) = Fin (of_int k)"
proof -
  have "(of_int \<bar>k\<bar> :: rat) \<le> of_int (2 ^ 53)"
    using assms by (simp only: of_int_le_iff)
  then have "\<bar>of_int k :: rat\<bar> \<le> 2 ^ 53" by simp
  then show ?thesis by (simp add: roundDouble_def)
qed

lemma hours_to_ms_int:
  assumes "\<bar>n\<bar> \<le> 2000000000"
  shows "hours_to_ms (Fin (of_int n)) = Fin (of_int (n * 3600000))"
proof -
  have a: "roundDouble (of_int (n * 60)) = Fin (of_int (n * 60))"
    using assms by (intro roundDouble_int) simp
  have b: "roundDouble (of_int (n * 60 * 60)) = Fin (of_int (n * 60 * 60))"
    using assms by (intro roundDouble_int) simp
  have c: "roundDouble (of_int (n * 60 * 60 * 1000)) = Fin (of_int (n * 60 * 60 * 1000))"
    using assms by (intro roundDouble_int) simp
  have "js_mul (Fin (of_int n)) (Fin 60) = Fin (of_int (n * 60))"
    using a by simp
  moreover have "js_mul (Fin (of_int (n * 60))) (Fin 60) = Fin (of_int (n * 60 * 60))"
    using b by simp
  moreover have "js_mul (Fin (of_int (n * 60 * 60))) (Fin 1000) = Fin (of_int (n * 60 * 60 * 1000))"
    using c by simp
  ultimately show ?thesis
    by (simp only: hours_to_ms_def) simp
qed

lemma hours_to_ms_examples:
  "hours_to_ms (Fin 24) = Fin 86400000"
  "hours_to_ms (Fin 6) = Fin 21600000"
  "hours_to_ms (Fin 0) = Fin 0"
  "hours_to_ms (Fin 597) = Fin 2149200000"
  using hours_to_ms_int [of 24] hours_to_ms_int [of 6] hours_to_ms_int [of 0] hours_to_ms_int [of 597]
  by simp_all

lemma whole_hours_period:
  assumes "whole_hours v"
  shows "\<exists>n. v = JsonNum (of_int n) \<and> 1 \<le> n \<and> n \<le> 596
             \<and> hours_to_ms (to_number v) = Fin (of_int (n * 3600000))
             \<and> period_ms (hours_to_ms (to_number v)) = n * 3600000"
proof -
  obtain q where v: "v = JsonNum q" and q: "of_int \<lfloor>q\<rfloor> = q" "1 \<le> q" "q \<le> 596"
    using assms by (auto simp: whole_hours_def split: json_number.splits)
  define n where "n = \<lfloor>q\<rfloor>"
  have qn: "q = of_int n" unfolding n_def using q(1) by (rule sym)
  have n: "1 \<le> n" "n \<le> 596"
    using q(2,3) unfolding qn by simp_all
  have h: "hours_to_ms (Fin (of_int n)) = Fin (of_int (n * 3600000))"
    using n by (intro hours_to_ms_int) simp
  define m where "m = n * 3600000"
  have m: "1 \<le> m" "m \<le> 2147483647"
    using n by (simp_all add: m_def)
  have lo: "(1 :: rat) \<le> of_int m"
    using m(1) by (simp only: of_int_1_le_iff)
  have "(of_int m :: rat) \<le> of_int 2147483647"
    using m(2) by (simp only: of_int_le_iff)
  then have hi: "(of_int m :: rat) \<le> 2147483647" by simp
  have "period_ms (Fin (of_int m)) = m"
    using lo hi by (simp add: period_ms_def)
  then have p: "period_ms (Fin (of_int (n * 3600000))) = n * 3600000"
    by (simp only: m_def)
  show ?thesis
    using n h p by (intro exI [of _ n]) (simp add: v qn)
qed

text \<open>
  Claim C6, as amended. A run of \<open>startAutoCheck\<close> first cancels the recurring timer
  and the pending one-shot the module holds, and then arms exactly this: the recurring
  timer when auto-check is enabled and the application is packaged, with the stored
  interval in milliseconds, and with it the one-shot of 10000 ms when \<open>isFirstStart\<close>
  still holds, which the run then clears; a run that finds auto-check disabled or the
  application unpackaged arms nothing and leaves \<open>isFirstStart\<close> as it is. The timers
  of the runtime afterwards are the old ones the module did not hold, followed by the new
  ones, and the two variables refer to the new ones. \<open>isFirstStart\<close> holds when the module
  is loaded and, in a process lifetime of settings changes and timer firings, as long as
  no run has found auto-check enabled in a packaged application. So the one-shot is
  armed at most once in a lifetime, by the first run that arms the recurring timer: that
  is the first scheduler start only if auto-check is enabled then, and otherwise the run
  of the settings change that enables it. Once it was armed no later run arms it again.
  In every state a process reaches from \<open>initUpdater\<close> the variables refer to every live
  timer of the scheduler, so after a run the scheduler's live timers are the ones this
  run armed and no others.
\<close>

theorem startAutoCheck_rearms:
  "(arms_oneshot s \<longleftrightarrow> isFirstStart s \<and> enabled (getAutoCheckSettings s) \<and> \<not> isDev s)
   \<and> (arms_recurring s \<longleftrightarrow> enabled (getAutoCheckSettings s) \<and> \<not> isDev s)
   \<and> (arms_oneshot s \<longrightarrow> \<not> arms_oneshot (lifetime (startAutoCheck s) evs))
   \<and> (\<not> isFirstStart s \<longrightarrow> \<not> arms_oneshot (lifetime s evs))
   \<and> timers (startAutoCheck s)
       = filter (\<lambda>t. Some (handle t) \<noteq> autoCheckTimer s \<and> Some (handle t) \<noteq> initialCheckTimeout s)
           (timers s)
         @ (if enabled (getAutoCheckSettings s) \<and> \<not> isDev s then
              \<lparr>handle = nextHandle s, timer_kind = Interval,
                delay = hours_to_ms (to_number (interval (getAutoCheckSettings s))),
                action = AutoCheckTick\<rparr>
              # (if isFirstStart s then
                   [\<lparr>handle = Suc (nextHandle s), timer_kind = Timeout, delay = Fin 10000,
                     action = InitialCheck\<rparr>]
                 else [])
            else [])
   \<and> autoCheckTimer (startAutoCheck s)
       = (if enabled (getAutoCheckSettings s) \<and> \<not> isDev s then Some (nextHandle s) else None)
   \<and> initialCheckTimeout (startAutoCheck s)
       = (if enabled (getAutoCheckSettings s) \<and> \<not> isDev s \<and> isFirstStart s
          then Some (Suc (nextHandle s)) else None)
   \<and> isFirstStart (startAutoCheck s)
       = (isFirstStart s \<and> \<not> (enabled (getAutoCheckSettings s) \<and> \<not> isDev s))
   \<and> period_ms (Fin 10000) = 10000
   \<and> isFirstStart (loaded dev ver plat dir st)
   \<and> isFirstStart (initUpdater win (loaded dev ver plat dir st))
       = (\<not> armed (loaded dev ver plat dir st))
   \<and> isFirstStart (lifetime s evs)
       = (isFirstStart s \<and> list_all (\<lambda>r. \<not> armed r) (start_states s evs))
   \<and> (arms_oneshot (store_settings p (lifetime (initUpdater win (loaded dev ver plat dir st)) evs))
        \<longleftrightarrow> armed (store_settings p (lifetime (initUpdater win (loaded dev ver plat dir st)) evs))
            \<and> \<not> armed (loaded dev ver plat dir st)
            \<and> list_all (\<lambda>r. \<not> armed r)
                 (start_states (initUpdater win (loaded dev ver plat dir st)) evs))
   \<and> sched_inv (lifetime (initUpdater win (loaded dev ver plat dir st)) evs)
   \<and> (sched_inv s \<longrightarrow>
        scheduler_timers (startAutoCheck s)
          = (if enabled (getAutoCheckSettings s) \<and> \<not> isDev s then
               \<lparr>handle = nextHandle s, timer_kind = Interval,
                 delay = hours_to_ms (to_number (interval (getAutoCheckSettings s))),
                 action = AutoCheckTick\<rparr>
               # (if isFirstStart s then
                    [\<lparr>handle = Suc (nextHandle s), timer_kind = Timeout, delay = Fin 10000,
                      action = InitialCheck\<rparr>]
                  else [])
             else []))"
proof -
  have c1: "arms_oneshot s \<longleftrightarrow> isFirstStart s \<and> enabled (getAutoCheckSettings s) \<and> \<not> isDev s"
    by (auto simp: arms_oneshot_iff armed_def)
  have c2: "arms_recurring s \<longleftrightarrow> enabled (getAutoCheckSettings s) \<and> \<not> isDev s"
    by (auto simp: arms_recurring_iff armed_def)
  have c3: "arms_oneshot s \<longrightarrow> \<not> arms_oneshot (lifetime (startAutoCheck s) evs)"
  proof
    assume "arms_oneshot s"
    then have "\<not> isFirstStart (startAutoCheck s)"
      by (simp add: arms_oneshot_iff startAutoCheck_isFirstStart)
    then have "\<not> isFirstStart (lifetime (startAutoCheck s) evs)"
      by (rule lifetime_not_first)
    then show "\<not> arms_oneshot (lifetime (startAutoCheck s) evs)"
      by (simp add: arms_oneshot_iff)
  qed
  have c4: "\<not> isFirstStart s \<longrightarrow> \<not> arms_oneshot (lifetime s evs)"
  proof
    assume "\<not> isFirstStart s"
    then have "\<not> isFirstStart (lifetime s evs)"
      by (rule lifetime_not_first)
    then show "\<not> arms_oneshot (lifetime s evs)"
      by (simp add: arms_oneshot_iff)
  qed
  have c5: "timers (startAutoCheck s)
       = filter (\<lambda>t. Some (handle t) \<noteq> autoCheckTimer s \<and> Some (handle t) \<noteq> initialCheckTimeout s)
           (timers s)
         @ (if enabled (getAutoCheckSettings s) \<and> \<not> isDev s then
              \<lparr>handle = nextHandle s, timer_kind = Interval,
                delay = hours_to_ms (to_number (interval (getAutoCheckSettings s))),
                action = AutoCheckTick\<rparr>
              # (if isFirstStart s then
                   [\<lparr>handle = Suc (nextHandle s), timer_kind = Timeout, delay = Fin 10000,
                     action = InitialCheck\<rparr>]
                 else [])
            else [])"
    by (simp add: startAutoCheck_timers timers_clearTimers armed_def)
  have c6: "autoCheckTimer (startAutoCheck s)
       = (if enabled (getAutoCheckSettings s) \<and> \<not> isDev s then Some (nextHandle s) else None)"
    by (simp add: startAutoCheck_autoCheckTimer armed_def)
  have c7: "initialCheckTimeout (startAutoCheck s)
       = (if enabled (getAutoCheckSettings s) \<and> \<not> isDev s \<and> isFirstStart s
          then Some (Suc (nextHandle s)) else None)"
    by (simp add: startAutoCheck_initialCheckTimeout armed_def)
  have c8: "isFirstStart (startAutoCheck s)
       = (isFirstStart s \<and> \<not> (enabled (getAutoCheckSettings s) \<and> \<not> isDev s))"
    by (simp add: startAutoCheck_isFirstStart armed_def)
  have c9: "period_ms (Fin 10000) = 10000"
    by (simp add: period_ms_def)
  have c10: "isFirstStart (loaded dev ver plat dir st)"
    by (simp add: loaded_def)
  note c11 = isFirstStart_initUpdater [of win dev ver plat dir st]
  note c12 = isFirstStart_lifetime [of s evs]
  have c13: "arms_oneshot (store_settings p (lifetime (initUpdater win (loaded dev ver plat dir st)) evs))
        \<longleftrightarrow> armed (store_settings p (lifetime (initUpdater win (loaded dev ver plat dir st)) evs))
            \<and> \<not> armed (loaded dev ver plat dir st)
            \<and> list_all (\<lambda>r. \<not> armed r)
                 (start_states (initUpdater win (loaded dev ver plat dir st)) evs)"
    by (auto simp: arms_oneshot_iff isFirstStart_lifetime isFirstStart_initUpdater)
  have c14: "sched_inv (lifetime (initUpdater win (loaded dev ver plat dir st)) evs)"
    using sched_inv_loaded by (rule sched_inv_lifetime)
  have c15: "sched_inv s \<longrightarrow>
        scheduler_timers (startAutoCheck s)
          = (if enabled (getAutoCheckSettings s) \<and> \<not> isDev s then
               \<lparr>handle = nextHandle s, timer_kind = Interval,
                 delay = hours_to_ms (to_number (interval (getAutoCheckSettings s))),
                 action = AutoCheckTick\<rparr>
               # (if isFirstStart s then
                    [\<lparr>handle = Suc (nextHandle s), timer_kind = Timeout, delay = Fin 10000,
                      action = InitialCheck\<rparr>]
                  else [])
             else [])"
    by (simp add: scheduler_timers_startAutoCheck armed_def)
  show ?thesis
    by (intro conjI) (rule c1 c2 c3 c4 c5 c6 c7 c8 c9 c10 c11 c12 c13 c14 c15)+
qed

theorem startAutoCheck_rearms_witness:
  "arms_oneshot loaded_fresh \<and> isFirstStart loaded_fresh
   \<and> \<not> arms_oneshot (lifetime (startAutoCheck loaded_fresh)
            [Fires 1 quiet, SetSettings \<lparr>enabled_opt = Some True, interval_opt = Some (Fin 1)\<rparr>])
   \<and> \<not> isFirstStart packaged_fresh
   \<and> \<not> arms_oneshot (lifetime packaged_fresh
            [SetSettings \<lparr>enabled_opt = Some False, interval_opt = None\<rparr>,
             SetSettings \<lparr>enabled_opt = Some True, interval_opt = None\<rparr>])
   \<and> timers (startAutoCheck loaded_fresh)
       = [\<lparr>handle = 0, timer_kind = Interval, delay = Fin 86400000, action = AutoCheckTick\<rparr>,
          \<lparr>handle = 1, timer_kind = Timeout, delay = Fin 10000, action = InitialCheck\<rparr>]
   \<and> autoCheckTimer (startAutoCheck loaded_fresh) = Some 0
   \<and> initialCheckTimeout (startAutoCheck loaded_fresh) = Some 1
   \<and> sched_inv packaged_fresh
   \<and> scheduler_timers (startAutoCheck packaged_fresh)
       = [\<lparr>handle = 2, timer_kind = Interval, delay = Fin 86400000, action = AutoCheckTick\<rparr>]"
proof -
  have a: "arms_oneshot loaded_fresh"
    by (simp add: arms_oneshot_iff armed_def example_defs getAutoCheckSettings_def)
  have f: "isFirstStart loaded_fresh"
    by (simp add: example_defs)
  have g: "enabled (getAutoCheckSettings loaded_fresh) \<and> \<not> isDev loaded_fresh"
    "nextHandle loaded_fresh = 0" "timers loaded_fresh = []"
    "interval (getAutoCheckSettings loaded_fresh) = JsonNum 24"
    by (simp_all add: example_defs getAutoCheckSettings_def)
  have t: "timers (startAutoCheck loaded_fresh)
       = [\<lparr>handle = 0, timer_kind = Interval, delay = Fin 86400000, action = AutoCheckTick\<rparr>,
          \<lparr>handle = 1, timer_kind = Timeout, delay = Fin 10000, action = InitialCheck\<rparr>]"
    and v: "autoCheckTimer (startAutoCheck loaded_fresh) = Some 0"
      "initialCheckTimeout (startAutoCheck loaded_fresh) = Some 1"
    using startAutoCheck_rearms [where s = loaded_fresh] f g
    by (simp_all add: hours_to_ms_examples)
  have n: "\<not> isFirstStart packaged_fresh"
    using a by (simp add: eval_packaged_fresh startAutoCheck_isFirstStart armed_def
        getAutoCheckSettings_def example_defs)
  have l1: "\<not> arms_oneshot (lifetime (startAutoCheck loaded_fresh)
            [Fires 1 quiet, SetSettings \<lparr>enabled_opt = Some True, interval_opt = Some (Fin 1)\<rparr>])"
    using a startAutoCheck_rearms [where s = loaded_fresh
        and evs = "[Fires 1 quiet, SetSettings \<lparr>enabled_opt = Some True, interval_opt = Some (Fin 1)\<rparr>]"]
    by blast
  have l2: "\<not> arms_oneshot (lifetime packaged_fresh
            [SetSettings \<lparr>enabled_opt = Some False, interval_opt = None\<rparr>,
             SetSettings \<lparr>enabled_opt = Some True, interval_opt = None\<rparr>])"
    using n startAutoCheck_rearms [where s = packaged_fresh
        and evs = "[SetSettings \<lparr>enabled_opt = Some False, interval_opt = None\<rparr>,
          SetSettings \<lparr>enabled_opt = Some True, interval_opt = None\<rparr>]"]
    by blast
  have "sched_inv (lifetime (initUpdater Alive (loaded False ''1.2.0'' ''win32'' ''C:/Downloads'' store_fresh)) [])"
    using startAutoCheck_rearms [where evs = "[]" and win = Alive and dev = False and ver = "''1.2.0''"
        and plat = "''win32''" and dir = "''C:/Downloads''" and st = store_fresh]
    by blast
  then have si: "sched_inv packaged_fresh"
    by (simp add: lifetime_def packaged_fresh_def)
  have h: "enabled (getAutoCheckSettings packaged_fresh) \<and> \<not> isDev packaged_fresh"
    "nextHandle packaged_fresh = 2"
    "interval (getAutoCheckSettings packaged_fresh) = JsonNum 24"
    by (simp_all add: example_defs sched_defs)
  have "scheduler_timers (startAutoCheck packaged_fresh)
          = (if enabled (getAutoCheckSettings packaged_fresh) \<and> \<not> isDev packaged_fresh then
               \<lparr>handle = nextHandle packaged_fresh, timer_kind = Interval,
                 delay = hours_to_ms (to_number (interval (getAutoCheckSettings packaged_fresh))),
                 action = AutoCheckTick\<rparr>
               # (if isFirstStart packaged_fresh then
                    [\<lparr>handle = Suc (nextHandle packaged_fresh), timer_kind = Timeout, delay = Fin 10000,
                      action = InitialCheck\<rparr>]
                  else [])
             else [])"
    using si startAutoCheck_rearms [where s = packaged_fresh] by blast
  then have st: "scheduler_timers (startAutoCheck packaged_fresh)
       = [\<lparr>handle = 2, timer_kind = Interval, delay = Fin 86400000, action = AutoCheckTick\<rparr>]"
    using h n by (simp add: hours_to_ms_examples)
  show ?thesis
    by (simp only: a f t v n l1 l2 si st simp_thms)
qed

text \<open>
  The claim as stated fails when the application starts with auto-check switched off:
  the first scheduler start arms nothing and leaves \<open>isFirstStart\<close> set, and the scheduler
  start that a later settings change triggers arms the one-shot.
\<close>

theorem oneshot_armed_by_settings_change:
  "timers packaged_disabled = [] \<and> initialCheckTimeout packaged_disabled = None
   \<and> isFirstStart packaged_disabled
   \<and> timers (snd (set_auto_update_settings \<lparr>enabled_opt = Some True, interval_opt = None\<rparr>
                     packaged_disabled))
       = [\<lparr>handle = 0, timer_kind = Interval, delay = Fin 86400000, action = AutoCheckTick\<rparr>,
          \<lparr>handle = 1, timer_kind = Timeout, delay = Fin 10000, action = InitialCheck\<rparr>]
   \<and> initialCheckTimeout (snd (set_auto_update_settings \<lparr>enabled_opt = Some True, interval_opt = None\<rparr>
                     packaged_disabled)) = Some 1"
  by (simp add: example_defs sched_defs hours_to_ms_examples)

lemma store_settings_store:
  "settingsStore (store_settings p s) =
     (settingsStore s)
       \<lparr>autoCheckUpdate := (case enabled_opt p of None \<Rightarrow> autoCheckUpdate (settingsStore s) | Some b \<Rightarrow> Some b),
        autoCheckInterval := (case interval_opt p of None \<Rightarrow> autoCheckInterval (settingsStore s)
                              | Some i \<Rightarrow> Some (to_json i))\<rparr>"
  by (simp add: store_settings_def Let_def split: option.splits)

lemma store_settings_frame [simp]:
  "isDev (store_settings p s) = isDev s"
  "nextHandle (store_settings p s) = nextHandle s"
  "timers (store_settings p s) = timers s"
  by (simp_all add: store_settings_def Let_def split: option.splits)

lemma set_settings_store:
  "settingsStore (snd (set_auto_update_settings p s)) = settingsStore (store_settings p s)"
  by (simp add: set_auto_update_settings_def Let_def)

lemma set_settings_result:
  "fst (set_auto_update_settings p s) = getAutoCheckSettings (store_settings p s)"
  by (simp add: set_auto_update_settings_def Let_def getAutoCheckSettings_def)

text \<open>
  Claim C10. A call of \<open>set-auto-update-settings\<close> with a partial settings object writes
  only the fields that are provided: with \<open>enabled\<close> omitted the key \<open>autoCheckUpdate\<close>
  keeps its value, with \<open>interval\<close> omitted the key \<open>autoCheckInterval\<close> keeps its value,
  a provided field is stored as given (the store keeping a number that is not finite as
  \<open>null\<close>), no other key of the store changes, and the value returned is the settings
  read back from the store after the update, with the defaults \<open>enabled = true\<close> and
  \<open>interval = 24\<close> for keys never set.
\<close>

theorem set_auto_update_settings_frame:
  "(enabled_opt p = None \<longrightarrow>
      autoCheckUpdate (settingsStore (snd (set_auto_update_settings p s)))
        = autoCheckUpdate (settingsStore s))
   \<and> (interval_opt p = None \<longrightarrow>
      autoCheckInterval (settingsStore (snd (set_auto_update_settings p s)))
        = autoCheckInterval (settingsStore s))
   \<and> (\<forall>b. enabled_opt p = Some b \<longrightarrow>
      autoCheckUpdate (settingsStore (snd (set_auto_update_settings p s))) = Some b)
   \<and> (\<forall>i. interval_opt p = Some i \<longrightarrow>
      autoCheckInterval (settingsStore (snd (set_auto_update_settings p s))) = Some (to_json i))
   \<and> (\<forall>q. interval_opt p = Some (Fin q) \<longrightarrow>
      autoCheckInterval (settingsStore (snd (set_auto_update_settings p s))) = Some (JsonNum q))
   \<and> otherKeys (settingsStore (snd (set_auto_update_settings p s))) = otherKeys (settingsStore s)
   \<and> fst (set_auto_update_settings p s)
       = \<lparr>enabled = (case autoCheckUpdate (settingsStore (snd (set_auto_update_settings p s))) of
                       None \<Rightarrow> True | Some b \<Rightarrow> b),
          interval = (case autoCheckInterval (settingsStore (snd (set_auto_update_settings p s))) of
                       None \<Rightarrow> JsonNum 24 | Some i \<Rightarrow> i)\<rparr>
   \<and> fst (set_auto_update_settings p s) = getAutoCheckSettings (snd (set_auto_update_settings p s))"
  by (simp add: set_settings_store set_settings_result store_settings_store getAutoCheckSettings_def
      set_auto_update_settings_def Let_def)

theorem set_auto_update_settings_frame_witness:
  "enabled_opt \<lparr>enabled_opt = None, interval_opt = Some (Fin 6)\<rparr> = None
   \<and> autoCheckUpdate (settingsStore (snd (set_auto_update_settings
        \<lparr>enabled_opt = None, interval_opt = Some (Fin 6)\<rparr> packaged_disabled))) = Some False
   \<and> autoCheckInterval (settingsStore (snd (set_auto_update_settings
        \<lparr>enabled_opt = None, interval_opt = Some (Fin 6)\<rparr> packaged_disabled))) = Some (JsonNum 6)
   \<and> fst (set_auto_update_settings \<lparr>enabled_opt = None, interval_opt = Some (Fin 6)\<rparr> packaged_disabled)
       = \<lparr>enabled = False, interval = JsonNum 6\<rparr>
   \<and> interval_opt \<lparr>enabled_opt = Some False, interval_opt = None\<rparr> = None
   \<and> autoCheckInterval (settingsStore (snd (set_auto_update_settings
        \<lparr>enabled_opt = Some False, interval_opt = None\<rparr> packaged_fresh))) = None
   \<and> fst (set_auto_update_settings \<lparr>enabled_opt = Some False, interval_opt = None\<rparr> packaged_fresh)
       = \<lparr>enabled = False, interval = JsonNum 24\<rparr>"
proof -
  have d: "autoCheckUpdate (settingsStore packaged_disabled) = Some False"
    "autoCheckInterval (settingsStore packaged_fresh) = None"
    by (simp_all add: packaged_disabled_def packaged_fresh_def initUpdater_def loaded_def
        store_disabled_def store_fresh_def)
  have e: "autoCheckUpdate (settingsStore (snd (set_auto_update_settings
        \<lparr>enabled_opt = None, interval_opt = Some (Fin 6)\<rparr> packaged_disabled)))
      = autoCheckUpdate (settingsStore packaged_disabled)"
    and i: "autoCheckInterval (settingsStore (snd (set_auto_update_settings
        \<lparr>enabled_opt = None, interval_opt = Some (Fin 6)\<rparr> packaged_disabled))) = Some (JsonNum 6)"
    using set_auto_update_settings_frame [of "\<lparr>enabled_opt = None, interval_opt = Some (Fin 6)\<rparr>" packaged_disabled]
    by simp_all
  have k: "autoCheckInterval (settingsStore (snd (set_auto_update_settings
        \<lparr>enabled_opt = Some False, interval_opt = None\<rparr> packaged_fresh)))
      = autoCheckInterval (settingsStore packaged_fresh)"
    using set_auto_update_settings_frame [of "\<lparr>enabled_opt = Some False, interval_opt = None\<rparr>" packaged_fresh]
    by simp
  have r: "fst (set_auto_update_settings \<lparr>enabled_opt = None, interval_opt = Some (Fin 6)\<rparr> packaged_disabled)
       = \<lparr>enabled = False, interval = JsonNum 6\<rparr>"
    "fst (set_auto_update_settings \<lparr>enabled_opt = Some False, interval_opt = None\<rparr> packaged_fresh)
       = \<lparr>enabled = False, interval = JsonNum 24\<rparr>"
    by (simp_all add: set_settings_result store_settings_store getAutoCheckSettings_def d)
  show ?thesis
    by (simp add: d e i k r)
qed

text \<open>
  Claim C9, as amended. The handler stores the interval it is given without validating
  it (a number that is not finite comes back from the store as \<open>null\<close>) and returns it,
  and the scheduler arms the recurring timer with the product
  \<open>interval * 60 * 60 * 1000\<close>, computed on doubles, as its delay. When the stored interval
  is an integer from 1 to 596 the product is exact, the runtime takes it as it is, and
  the timer waits that many hours, so at least one. The constraint is preserved, not
  enforced: if the interval provided (when provided) and the interval in the store (when
  set) are integers from 1 to 596, so are the interval stored and returned afterwards.
\<close>

theorem set_auto_update_settings_interval:
  "(\<forall>i. interval_opt p = Some i \<longrightarrow>
      autoCheckInterval (settingsStore (snd (set_auto_update_settings p s))) = Some (to_json i)
      \<and> interval (fst (set_auto_update_settings p s)) = to_json i)
   \<and> (armed (store_settings p s) \<longrightarrow>
        \<lparr>handle = nextHandle s, timer_kind = Interval,
          delay = hours_to_ms (to_number (interval (fst (set_auto_update_settings p s)))),
          action = AutoCheckTick\<rparr> \<in> set (timers (snd (set_auto_update_settings p s)))
        \<and> autoCheckTimer (snd (set_auto_update_settings p s)) = Some (nextHandle s))
   \<and> (whole_hours (interval (fst (set_auto_update_settings p s))) \<longrightarrow>
        (\<exists>n. interval (fst (set_auto_update_settings p s)) = JsonNum (of_int n)
            \<and> 1 \<le> n \<and> n \<le> 596
            \<and> hours_to_ms (to_number (interval (fst (set_auto_update_settings p s))))
                = Fin (of_int (n * 3600000))
            \<and> period_ms (hours_to_ms (to_number (interval (fst (set_auto_update_settings p s)))))
                = n * 3600000)
        \<and> 3600000 \<le> period_ms (hours_to_ms (to_number (interval (fst (set_auto_update_settings p s))))))
   \<and> ((\<forall>i. interval_opt p = Some i \<longrightarrow> whole_hours (to_json i))
        \<and> (\<forall>v. autoCheckInterval (settingsStore s) = Some v \<longrightarrow> whole_hours v)
      \<longrightarrow> whole_hours (interval (fst (set_auto_update_settings p s)))
          \<and> (\<forall>v. autoCheckInterval (settingsStore (snd (set_auto_update_settings p s))) = Some v
                \<longrightarrow> whole_hours v))"
proof (intro conjI allI impI)
  fix i assume "interval_opt p = Some i"
  then show "autoCheckInterval (settingsStore (snd (set_auto_update_settings p s))) = Some (to_json i)"
    and "interval (fst (set_auto_update_settings p s)) = to_json i"
    by (simp_all add: set_settings_store set_settings_result store_settings_store
        getAutoCheckSettings_def)
next
  assume "armed (store_settings p s)"
  then show "\<lparr>handle = nextHandle s, timer_kind = Interval,
          delay = hours_to_ms (to_number (interval (fst (set_auto_update_settings p s)))),
          action = AutoCheckTick\<rparr> \<in> set (timers (snd (set_auto_update_settings p s)))"
    and "autoCheckTimer (snd (set_auto_update_settings p s)) = Some (nextHandle s)"
    by (simp_all add: set_auto_update_settings_def Let_def startAutoCheck_timers
        startAutoCheck_autoCheckTimer getAutoCheckSettings_def)
next
  assume w: "whole_hours (interval (fst (set_auto_update_settings p s)))"
  from whole_hours_period [OF w]
  obtain n where n: "interval (fst (set_auto_update_settings p s)) = JsonNum (of_int n)"
      "1 \<le> n" "n \<le> 596"
      "hours_to_ms (to_number (interval (fst (set_auto_update_settings p s)))) = Fin (of_int (n * 3600000))"
      "period_ms (hours_to_ms (to_number (interval (fst (set_auto_update_settings p s))))) = n * 3600000"
    by blast
  show "\<exists>n. interval (fst (set_auto_update_settings p s)) = JsonNum (of_int n)
            \<and> 1 \<le> n \<and> n \<le> 596
            \<and> hours_to_ms (to_number (interval (fst (set_auto_update_settings p s))))
                = Fin (of_int (n * 3600000))
            \<and> period_ms (hours_to_ms (to_number (interval (fst (set_auto_update_settings p s)))))
                = n * 3600000"
    using n by blast
  show "3600000 \<le> period_ms (hours_to_ms (to_number (interval (fst (set_auto_update_settings p s)))))"
    using n(2) by (simp only: n(5))
next
  assume h: "(\<forall>i. interval_opt p = Some i \<longrightarrow> whole_hours (to_json i))
        \<and> (\<forall>v. autoCheckInterval (settingsStore s) = Some v \<longrightarrow> whole_hours v)"
  have d: "whole_hours (JsonNum 24)"
    by (simp add: whole_hours_def)
  show "whole_hours (interval (fst (set_auto_update_settings p s)))"
    using h d by (auto simp: set_settings_result store_settings_store getAutoCheckSettings_def
        split: option.splits)
  fix v assume "autoCheckInterval (settingsStore (snd (set_auto_update_settings p s))) = Some v"
  then show "whole_hours v"
    using h by (auto simp: set_settings_store store_settings_store split: option.splits)
qed

theorem set_auto_update_settings_interval_witness:
  "interval_opt \<lparr>enabled_opt = None, interval_opt = Some (Fin 6)\<rparr> = Some (Fin 6)
   \<and> armed (store_settings \<lparr>enabled_opt = None, interval_opt = Some (Fin 6)\<rparr> packaged_fresh)
   \<and> whole_hours (to_json (Fin 6))
   \<and> autoCheckInterval (settingsStore packaged_fresh) = None
   \<and> autoCheckInterval (settingsStore (snd (set_auto_update_settings
        \<lparr>enabled_opt = None, interval_opt = Some (Fin 6)\<rparr> packaged_fresh))) = Some (JsonNum 6)
   \<and> interval (fst (set_auto_update_settings
        \<lparr>enabled_opt = None, interval_opt = Some (Fin 6)\<rparr> packaged_fresh)) = JsonNum 6
   \<and> \<lparr>handle = 2, timer_kind = Interval, delay = Fin 21600000, action = AutoCheckTick\<rparr>
       \<in> set (timers (snd (set_auto_update_settings
            \<lparr>enabled_opt = None, interval_opt = Some (Fin 6)\<rparr> packaged_fresh)))
   \<and> period_ms (hours_to_ms (to_number (interval (fst (set_auto_update_settings
        \<lparr>enabled_opt = None, interval_opt = Some (Fin 6)\<rparr> packaged_fresh))))) = 21600000
   \<and> 3600000 \<le> period_ms (hours_to_ms (to_number (interval (fst (set_auto_update_settings
        \<lparr>enabled_opt = None, interval_opt = Some (Fin 6)\<rparr> packaged_fresh)))))
   \<and> whole_hours (interval (fst (set_auto_update_settings
        \<lparr>enabled_opt = None, interval_opt = Some (Fin 6)\<rparr> packaged_fresh)))"
proof -
  let ?p = "\<lparr>enabled_opt = None, interval_opt = Some (Fin 6)\<rparr>"
  note inst = set_auto_update_settings_interval [of ?p packaged_fresh]
  have a: "armed (store_settings ?p packaged_fresh)"
    by (simp add: armed_def getAutoCheckSettings_def store_settings_store example_defs)
  have n: "nextHandle packaged_fresh = 2"
    by (simp add: example_defs sched_defs)
  have s: "autoCheckInterval (settingsStore packaged_fresh) = None"
    by (simp add: example_defs)
  have w: "whole_hours (to_json (Fin 6))"
    by (simp add: whole_hours_def)
  have i: "autoCheckInterval (settingsStore (snd (set_auto_update_settings ?p packaged_fresh))) = Some (JsonNum 6)"
    "interval (fst (set_auto_update_settings ?p packaged_fresh)) = JsonNum 6"
    using inst by simp_all
  have t: "\<lparr>handle = nextHandle packaged_fresh, timer_kind = Interval,
          delay = hours_to_ms (to_number (interval (fst (set_auto_update_settings ?p packaged_fresh)))),
          action = AutoCheckTick\<rparr>
       \<in> set (timers (snd (set_auto_update_settings ?p packaged_fresh)))"
    using a inst by blast
  have t': "\<lparr>handle = 2, timer_kind = Interval, delay = Fin 21600000, action = AutoCheckTick\<rparr>
       \<in> set (timers (snd (set_auto_update_settings ?p packaged_fresh)))"
    using t by (simp add: n i hours_to_ms_examples)
  have k: "whole_hours (interval (fst (set_auto_update_settings ?p packaged_fresh)))"
    using inst w s by simp
  have m: "3600000 \<le> period_ms (hours_to_ms (to_number (interval (fst (set_auto_update_settings
        ?p packaged_fresh)))))"
    using inst k by blast
  have e: "period_ms (hours_to_ms (to_number (interval (fst (set_auto_update_settings
        ?p packaged_fresh))))) = 21600000"
    by (simp add: i hours_to_ms_examples period_ms_def)
  have z: "interval_opt ?p = Some (Fin 6)"
    by simp
  show ?thesis
    by (intro conjI) (rule z a w s i t' e m k)+
qed

text \<open>
  The claim as stated fails: nothing rejects an interval below 1, and an interval of at
  least 1 need not give a period of an hour. Given \<open>interval = 0\<close> the handler stores 0,
  returns it, and the scheduler arms the recurring timer with a delay of 0 ms. Given
  \<open>interval = 597\<close> the delay is 2149200000 ms, which exceeds \<open>2^31 - 1\<close>. The runtime
  fires both timers every millisecond.
\<close>

theorem interval_unvalidated_fires_every_ms:
  "autoCheckInterval (settingsStore (snd (set_auto_update_settings
      \<lparr>enabled_opt = None, interval_opt = Some (Fin 0)\<rparr> packaged_fresh))) = Some (JsonNum 0)
   \<and> fst (set_auto_update_settings \<lparr>enabled_opt = None, interval_opt = Some (Fin 0)\<rparr> packaged_fresh)
       = \<lparr>enabled = True, interval = JsonNum 0\<rparr>
   \<and> timers (snd (set_auto_update_settings \<lparr>enabled_opt = None, interval_opt = Some (Fin 0)\<rparr> packaged_fresh))
       = [\<lparr>handle = 2, timer_kind = Interval, delay = Fin 0, action = AutoCheckTick\<rparr>]
   \<and> period_ms (Fin 0) = 1
   \<and> fst (set_auto_update_settings \<lparr>enabled_opt = None, interval_opt = Some (Fin 597)\<rparr> packaged_fresh)
       = \<lparr>enabled = True, interval = JsonNum 597\<rparr>
   \<and> timers (snd (set_auto_update_settings \<lparr>enabled_opt = None, interval_opt = Some (Fin 597)\<rparr> packaged_fresh))
       = [\<lparr>handle = 2, timer_kind = Interval, delay = Fin 2149200000, action = AutoCheckTick\<rparr>]
   \<and> period_ms (Fin 2149200000) = 1"
  by (simp add: example_defs sched_defs hours_to_ms_examples period_ms_def)



lemma silentCheck_sent:
  "sent (silentCheckForUpdates outcome s)
     = sent s @
       (case outcome of
          CheckResolves (Some info) \<Rightarrow>
            if \<not> isDev s \<and> mainWindow s = Alive \<and> version info \<noteq> appVersion s
            then [(''update-available-silent'',
                   JObj [(''version'', JStr (version info)), (''releaseDate'', releaseDate info)])]
            else []
        | _ \<Rightarrow> [])"
  by (auto simp: silentCheckForUpdates_def log_info_def log_error_def sendToRenderer_def Let_def
      split: check_outcome.splits option.splits)

lemma silentCheck_failure_logged:
  "logs (silentCheckForUpdates (CheckRejects err) s)
     = logs s @ (if isDev s then [] else [(Error, [Txt ''Silent update check error:'', Txt err])])"
  by (simp add: silentCheckForUpdates_def log_error_def Let_def)

text \<open>
  Claim C1 fails on the code: the silent check compares the fetched version with the
  running one by \<open>!==\<close>, not by \<open>isNewerVersion\<close>. With the application at 1.2.0 and the
  feed's latest release at 1.1.0, which is not newer, the renderer is told that an update
  is available. The rest of the claim holds (\<open>silentCheck_sent\<close>,
  \<open>silentCheck_failure_logged\<close>): nothing is sent when the versions are the same string
  or the check fails, and a failure is logged.
\<close>

theorem silentCheck_notifies_for_older_release:
  "sent (silentCheckForUpdates (CheckResolves (Some older_release)) packaged_fresh)
     = [(''update-available-silent'',
         JObj [(''version'', JStr ''1.1.0''), (''releaseDate'', JStr ''2024-01-01T00:00:00.000Z'')])]
   \<and> appVersion packaged_fresh = ''1.2.0''
   \<and> \<not> isNewerVersion ''1.1.0'' ''1.2.0''"
proof -
  have "\<not> isNewerVersion ''1.1.0'' ''1.2.0''" by code_simp
  then show ?thesis
    by (simp add: silentCheckForUpdates_def example_defs sched_defs sendToRenderer_def
        older_release_def)
qed
section \<open>Properties of the downloader\<close>









lemma abandoned:
  "\<not> fileOpen (abandon err d) \<and> \<not> destExists (abandon err d)
   \<and> completion (abandon err d) = (if completion d = Pending then Rejected err else completion d)"
  by (simp add: abandon_def settle_def)

lemma handled_failures:
  "dl_step get d (RequestError err) = abandon err d"
  "streaming d \<Longrightarrow> dl_step get d (FileError err) = abandon err d"
  "awaiting d \<Longrightarrow> code \<noteq> 200 \<Longrightarrow> \<not> ((code = 301 \<or> code = 302) \<and> (\<exists>l. loc = Some l \<and> l \<noteq> [])) \<Longrightarrow>
   dl_step get d (Response code loc cl)
     = abandon (''Download failed: HTTP '' @ showNat code) (d\<lparr>awaiting := False\<rparr>)"
  by (auto simp: on_response_def abandon_def Let_def split: option.splits)

lemma refused_url:
  "get url = Some err \<Longrightarrow>
   completion (download_run get url dest t0 [Opened]) = Rejected err
   \<and> requests (download_run get url dest t0 [Opened]) = []
   \<and> fileOpen (download_run get url dest t0 [Opened])
   \<and> destExists (download_run get url dest t0 [Opened])"
  by (simp add: download_run_def downloadFile_def makeRequest_def Let_def)

text \<open>
  Claim C2 fails on the code. The failures that have a callback are cleaned up
  (\<open>handled_failures\<close>, \<open>abandoned\<close>): a final status other than 200, an error of the
  request and an error of the file each close the file, delete \<open>destPath\<close> and reject.
  An error of the response stream has none (the sibling \<open>fetchLatestReleaseFromGitHub\<close>
  registers \<open>response.on('error', ...)\<close>, this function does not): when the body of a
  200 response breaks off, the file stays open, the partial file stays at \<open>destPath\<close>
  and the promise is never settled. Nor is anything cleaned up when \<open>https.get\<close> refuses
  the first URL (\<open>refused_url\<close>): the promise rejects, and the file that is being
  created is neither closed nor deleted.
\<close>

theorem downloadFile_leaves_partial_file:
  "completion (download_run https_get_examples ''https://github.com/a.dmg'' ''/tmp/a.dmg'' 0
      [Opened, Response 200 None 8, Data ''abcd'' 1000, ResponseError ''aborted'']) = Pending
   \<and> fileOpen (download_run https_get_examples ''https://github.com/a.dmg'' ''/tmp/a.dmg'' 0
      [Opened, Response 200 None 8, Data ''abcd'' 1000, ResponseError ''aborted''])
   \<and> destExists (download_run https_get_examples ''https://github.com/a.dmg'' ''/tmp/a.dmg'' 0
      [Opened, Response 200 None 8, Data ''abcd'' 1000, ResponseError ''aborted''])
   \<and> written (download_run https_get_examples ''https://github.com/a.dmg'' ''/tmp/a.dmg'' 0
      [Opened, Response 200 None 8, Data ''abcd'' 1000, ResponseError ''aborted'']) = ''abcd''"
  by (simp add: download_run_def downloadFile_def makeRequest_def on_response_def on_data_def Let_def
      https_get_examples_def)

section \<open>The handlers in dev mode\<close>

text \<open>
  Claim C4. In dev mode (the application is not packaged) \<open>check-for-updates\<close> contacts
  no collaborator on the network: it calls neither the update feed nor the shell, arms a
  one-shot timer of 500 ms, which the runtime waits in full and whose callback sends
  \<open>update-not-available\<close> with the current version and \<open>devMode: true\<close>, and answers
  \<open>{success: true, updateInfo: {version}, devMode: true}\<close> with the current version. \<open>download-update\<close> and \<open>install-update\<close>
  are refused with \<open>{success: false, error}\<close>; the refused download opens the releases
  page, and still answers with an error when opening the page fails. Messages reach the
  renderer when the main window is alive (\<open>sendToRenderer\<close> drops them otherwise).
\<close>

theorem dev_mode_handlers:
  assumes "isDev s"
  shows "fst (check_for_updates outcome s)
           = JObj [(''success'', JBool True),
                   (''updateInfo'', JObj [(''version'', JStr (appVersion s))]),
                   (''devMode'', JBool True)]
    \<and> feedChecks (snd (check_for_updates outcome s)) = feedChecks s
    \<and> feedDownloads (snd (check_for_updates outcome s)) = feedDownloads s
    \<and> opened (snd (check_for_updates outcome s)) = opened s
    \<and> timers (snd (check_for_updates outcome s))
        = timers s @ [\<lparr>handle = nextHandle s, timer_kind = Timeout, delay = Fin 500,
                        action = DevNotAvailable (appVersion s)\<rparr>]
    \<and> period_ms (Fin 500) = 500
    \<and> sent (snd (check_for_updates outcome s))
        = sent s @ (if mainWindow s = Alive then [(''checking-for-update'', JNull)] else [])
    \<and> sent (run_callback env (DevNotAvailable (appVersion s)) s')
        = sent s' @ (if mainWindow s' = Alive
                     then [(''update-not-available'',
                            JObj [(''version'', JStr (appVersion s)), (''devMode'', JBool True)])]
                     else [])
    \<and> fst (download_update denv s)
        = Some (JObj [(''success'', JBool False),
                      (''error'', JStr (case openExternal_error denv of
                                          None \<Rightarrow> ''Dev mode - opened releases page''
                                        | Some e \<Rightarrow> e))])
    \<and> opened (snd (download_update denv s))
        = opened s @ [''https://github.com/jheroy/Redmine-desktop/releases'']
    \<and> feedDownloads (snd (download_update denv s)) = feedDownloads s
    \<and> feedChecks (snd (download_update denv s)) = feedChecks s
    \<and> downloadedDmgPath (snd (download_update denv s)) = downloadedDmgPath s
    \<and> fst (install_update openPath_error s)
        = JObj [(''success'', JBool False), (''error'', JStr ''Cannot install in dev mode'')]
    \<and> timers (snd (install_update openPath_error s)) = timers s
    \<and> exits (snd (install_update openPath_error s)) = exits s
    \<and> opened (snd (install_update openPath_error s)) = opened s"
proof -
  have check: "check_for_updates outcome s
      = (JObj [(''success'', JBool True),
               (''updateInfo'', JObj [(''version'', JStr (appVersion s))]),
               (''devMode'', JBool True)],
         snd (setTimer Timeout (DevNotAvailable (appVersion s)) (Fin 500)
           (log_info [''Dev mode: skipping API call, showing dev mode notice'']
             (sendToRenderer ''checking-for-update'' JNull
               (log_info [''Manual update check triggered, isDev:'', showBool (isDev s)] s)))))"
    using assms
    by (simp add: check_for_updates_def Let_def sendToRenderer_def log_info_def setTimer_def)
  have c: "feedChecks (snd (check_for_updates outcome s)) = feedChecks s"
    "feedDownloads (snd (check_for_updates outcome s)) = feedDownloads s"
    "opened (snd (check_for_updates outcome s)) = opened s"
    "timers (snd (check_for_updates outcome s))
        = timers s @ [\<lparr>handle = nextHandle s, timer_kind = Timeout, delay = Fin 500,
                        action = DevNotAvailable (appVersion s)\<rparr>]"
    "sent (snd (check_for_updates outcome s))
        = sent s @ (if mainWindow s = Alive then [(''checking-for-update'', JNull)] else [])"
    by (simp_all add: check sendToRenderer_def log_info_def setTimer_def)
  have cb: "sent (run_callback env (DevNotAvailable (appVersion s)) s')
        = sent s' @ (if mainWindow s' = Alive
                     then [(''update-not-available'',
                            JObj [(''version'', JStr (appVersion s)), (''devMode'', JBool True)])]
                     else [])"
    by (simp add: sendToRenderer_def)
  have d: "fst (download_update denv s)
        = Some (JObj [(''success'', JBool False),
                      (''error'', JStr (case openExternal_error denv of
                                          None \<Rightarrow> ''Dev mode - opened releases page''
                                        | Some e \<Rightarrow> e))])"
    "opened (snd (download_update denv s))
        = opened s @ [''https://github.com/jheroy/Redmine-desktop/releases'']"
    "feedDownloads (snd (download_update denv s)) = feedDownloads s"
    "feedChecks (snd (download_update denv s)) = feedChecks s"
    "downloadedDmgPath (snd (download_update denv s)) = downloadedDmgPath s"
    using assms
    by (simp_all add: download_update_def Let_def download_failed_def failure_def openExternal_def
        sendToRenderer_def log_info_def log_error_def split: option.splits)
  have i: "fst (install_update openPath_error s)
        = JObj [(''success'', JBool False), (''error'', JStr ''Cannot install in dev mode'')]"
    "timers (snd (install_update openPath_error s)) = timers s"
    "exits (snd (install_update openPath_error s)) = exits s"
    "opened (snd (install_update openPath_error s)) = opened s"
    using assms
    by (simp_all add: install_update_def failure_def sendToRenderer_def)
  have r: "fst (check_for_updates outcome s)
           = JObj [(''success'', JBool True),
                   (''updateInfo'', JObj [(''version'', JStr (appVersion s))]),
                   (''devMode'', JBool True)]"
    by (simp add: check)
  have pm: "period_ms (Fin 500) = 500"
    by (simp add: period_ms_def)
  show ?thesis
    by (simp only: r c pm cb d i simp_thms)
qed

theorem dev_mode_handlers_witness:
  "isDev dev_fresh
   \<and> fst (check_for_updates (CheckRejects ''offline'') dev_fresh)
       = JObj [(''success'', JBool True), (''updateInfo'', JObj [(''version'', JStr ''1.2.0'')]),
               (''devMode'', JBool True)]
   \<and> timers (snd (check_for_updates (CheckRejects ''offline'') dev_fresh))
       = [\<lparr>handle = 0, timer_kind = Timeout, delay = Fin 500, action = DevNotAvailable ''1.2.0''\<rparr>]
   \<and> feedChecks (snd (check_for_updates (CheckRejects ''offline'') dev_fresh)) = 0
   \<and> sent (fire quiet 0 (snd (check_for_updates (CheckRejects ''offline'') dev_fresh)))
       = [(''checking-for-update'', JNull),
          (''update-not-available'', JObj [(''version'', JStr ''1.2.0''), (''devMode'', JBool True)])]
   \<and> fst (install_update [] dev_fresh)
       = JObj [(''success'', JBool False), (''error'', JStr ''Cannot install in dev mode'')]"
proof -
  have dev: "isDev dev_fresh" "appVersion dev_fresh = ''1.2.0''" "timers dev_fresh = []"
    "nextHandle dev_fresh = 0" "feedChecks dev_fresh = 0" "sent dev_fresh = []"
    "mainWindow dev_fresh = Alive"
    by (simp_all add: example_defs sched_defs)
  note t = dev_mode_handlers [OF dev(1), of "CheckRejects ''offline''" quiet
      "snd (check_for_updates (CheckRejects ''offline'') dev_fresh)"
      "\<lparr>openExternal_error = None, downloadUpdate_error = None, https_get = https_get_examples,
        net_events = [], clock = 0\<rparr>" "[]"]
  have r: "fst (check_for_updates (CheckRejects ''offline'') dev_fresh)
       = JObj [(''success'', JBool True), (''updateInfo'', JObj [(''version'', JStr ''1.2.0'')]),
               (''devMode'', JBool True)]"
    using t dev by simp
  have tm: "timers (snd (check_for_updates (CheckRejects ''offline'') dev_fresh))
       = [\<lparr>handle = 0, timer_kind = Timeout, delay = Fin 500, action = DevNotAvailable ''1.2.0''\<rparr>]"
    using t dev by simp
  have fc: "feedChecks (snd (check_for_updates (CheckRejects ''offline'') dev_fresh)) = 0"
    using t dev by simp
  have st: "sent (snd (check_for_updates (CheckRejects ''offline'') dev_fresh))
       = [(''checking-for-update'', JNull)]"
    using t dev by simp
  have ins: "fst (install_update [] dev_fresh)
       = JObj [(''success'', JBool False), (''error'', JStr ''Cannot install in dev mode'')]"
    using t by simp
  have w: "mainWindow (snd (check_for_updates (CheckRejects ''offline'') dev_fresh)) = Alive"
    using dev by (simp add: check_for_updates_def Let_def sendToRenderer_def log_info_def setTimer_def)
  have f: "fire quiet 0 (snd (check_for_updates (CheckRejects ''offline'') dev_fresh))
     = run_callback quiet (DevNotAvailable ''1.2.0'')
         (clearTimer 0 (snd (check_for_updates (CheckRejects ''offline'') dev_fresh)))"
    by (simp add: fire_def tm)
  have s: "sent (run_callback quiet (DevNotAvailable ''1.2.0'')
         (clearTimer 0 (snd (check_for_updates (CheckRejects ''offline'') dev_fresh))))
       = [(''checking-for-update'', JNull),
          (''update-not-available'', JObj [(''version'', JStr ''1.2.0''), (''devMode'', JBool True)])]"
    by (simp add: sendToRenderer_def clearTimer_def st w)
  show ?thesis
    by (simp only: dev(1) r tm fc f s ins simp_thms)
qed

section \<open>Properties of the fallback release source\<close>

lemma fetch_body:
  "responded f \<Longrightarrow>
   foldl (fetch_step JSON_parse) f (map FData chunks) = f\<lparr>data := data f @ concat chunks\<rparr>"
  by (induction chunks arbitrary: f) simp_all

lemma fetch_answered:
  "fetch_run JSON_parse (answered code chunks)
     = on_end JSON_parse
         (fetchLatestReleaseFromGitHub\<lparr>statusCode := code, responded := True, data := concat chunks\<rparr>)"
proof -
  let ?f = "fetchLatestReleaseFromGitHub\<lparr>statusCode := code, responded := True\<rparr>"
  have "foldl (fetch_step JSON_parse) ?f (map FData chunks) = ?f\<lparr>data := data ?f @ concat chunks\<rparr>"
    by (rule fetch_body) simp
  then show ?thesis
    by (simp add: fetch_run_def answered_def fetchLatestReleaseFromGitHub_def)
qed

lemma fetch_step_timer:
  "ev \<noteq> FTimer \<Longrightarrow> timer_ms (fetch_step JSON_parse f ev) = timer_ms f"
  by (cases ev)
    (auto simp: on_end_def reject_def resolve_def split: sum.splits)

lemma fetch_timer_pending:
  "FTimer \<notin> set evs \<Longrightarrow> timer_ms (foldl (fetch_step JSON_parse) f evs) = timer_ms f"
  by (induction evs arbitrary: f) (auto simp: fetch_step_timer)

text \<open>
  Claim C7, as amended. After a complete response with status 200 whose body parses as
  a JSON object with a string tag name, the fallback fetch resolves with the tag stripped
  of one leading \<open>v\<close> as the version and with the publish timestamp as the release date;
  when the tag is missing, or nothing is left of it after stripping, the version is the
  release name. A body that does not parse rejects with the error of the parser. Status
  404 rejects with \<open>No releases found\<close>, any other status with an error that carries the
  code. The timer is set to 15000 ms and never cleared: when it fires while the promise
  is pending, the request is aborted and the promise rejects with \<open>Request timeout\<close>.
\<close>

theorem fetchLatestRelease_outcomes:
  "(JSON_parse (concat chunks) = Inr (JObj members)
      \<and> map_of members ''tag_name'' = Some (JStr tag) \<and> strip_v tag \<noteq> []
      \<and> map_of members ''published_at'' = Some published
    \<longrightarrow> result (fetch_run JSON_parse (answered 200 chunks))
          = Resolved (JObj [(''version'', JStr (strip_v tag)),
                            (''releaseDate'', published),
                            (''releaseNotes'', or_else (get_prop (JObj members) ''body'') (JStr [])),
                            (''releaseName'', get_prop (JObj members) ''name'')]))
   \<and> (JSON_parse (concat chunks) = Inr (JObj members)
      \<and> (map_of members ''tag_name'' = None
          \<or> map_of members ''tag_name'' = Some (JStr tag) \<and> strip_v tag = [])
    \<longrightarrow> result (fetch_run JSON_parse (answered 200 chunks))
          = Resolved (JObj [(''version'', get_prop (JObj members) ''name''),
                            (''releaseDate'', get_prop (JObj members) ''published_at''),
                            (''releaseNotes'', or_else (get_prop (JObj members) ''body'') (JStr [])),
                            (''releaseName'', get_prop (JObj members) ''name'')]))
   \<and> (JSON_parse (concat chunks) = Inl e
    \<longrightarrow> result (fetch_run JSON_parse (answered 200 chunks)) = Rejected e)
   \<and> result (fetch_run JSON_parse (answered 404 chunks)) = Rejected ''No releases found''
   \<and> (code \<noteq> 200 \<and> code \<noteq> 404
    \<longrightarrow> result (fetch_run JSON_parse (answered code chunks))
          = Rejected (''GitHub API error: '' @ showNat code))
   \<and> timer_ms fetchLatestReleaseFromGitHub = Some 15000
   \<and> (FTimer \<notin> set evs \<and> result (fetch_run JSON_parse evs) = Pending
    \<longrightarrow> aborted (fetch_run JSON_parse (evs @ [FTimer]))
        \<and> result (fetch_run JSON_parse (evs @ [FTimer])) = Rejected ''Request timeout'')"
proof (intro conjI impI)
  assume "JSON_parse (concat chunks) = Inr (JObj members)
      \<and> map_of members ''tag_name'' = Some (JStr tag) \<and> strip_v tag \<noteq> []
      \<and> map_of members ''published_at'' = Some published"
  then show "result (fetch_run JSON_parse (answered 200 chunks))
          = Resolved (JObj [(''version'', JStr (strip_v tag)),
                            (''releaseDate'', published),
                            (''releaseNotes'', or_else (get_prop (JObj members) ''body'') (JStr [])),
                            (''releaseName'', get_prop (JObj members) ''name'')])"
    by (simp add: fetch_answered on_end_def release_info_def bare_tag_def or_else_def resolve_def
        settle_def fetchLatestReleaseFromGitHub_def)
next
  assume "JSON_parse (concat chunks) = Inr (JObj members)
      \<and> (map_of members ''tag_name'' = None
          \<or> map_of members ''tag_name'' = Some (JStr tag) \<and> strip_v tag = [])"
  then show "result (fetch_run JSON_parse (answered 200 chunks))
          = Resolved (JObj [(''version'', get_prop (JObj members) ''name''),
                            (''releaseDate'', get_prop (JObj members) ''published_at''),
                            (''releaseNotes'', or_else (get_prop (JObj members) ''body'') (JStr [])),
                            (''releaseName'', get_prop (JObj members) ''name'')])"
    by (auto simp: fetch_answered on_end_def release_info_def bare_tag_def or_else_def resolve_def
        settle_def fetchLatestReleaseFromGitHub_def)
next
  assume "JSON_parse (concat chunks) = Inl e"
  then show "result (fetch_run JSON_parse (answered 200 chunks)) = Rejected e"
    by (simp add: fetch_answered on_end_def reject_def settle_def fetchLatestReleaseFromGitHub_def)
next
  show "result (fetch_run JSON_parse (answered 404 chunks)) = Rejected ''No releases found''"
    by (simp add: fetch_answered on_end_def reject_def settle_def fetchLatestReleaseFromGitHub_def)
next
  assume "code \<noteq> 200 \<and> code \<noteq> 404"
  then show "result (fetch_run JSON_parse (answered code chunks))
          = Rejected (''GitHub API error: '' @ showNat code)"
    by (simp add: fetch_answered on_end_def reject_def settle_def fetchLatestReleaseFromGitHub_def)
next
  show "timer_ms fetchLatestReleaseFromGitHub = Some 15000"
    by (simp add: fetchLatestReleaseFromGitHub_def)
next
  assume h: "FTimer \<notin> set evs \<and> result (fetch_run JSON_parse evs) = Pending"
  then have t: "timer_ms (fetch_run JSON_parse evs) = Some 15000"
    by (simp add: fetch_run_def fetch_timer_pending fetchLatestReleaseFromGitHub_def)
  have step: "fetch_run JSON_parse (evs @ [FTimer])
        = fetch_step JSON_parse (fetch_run JSON_parse evs) FTimer"
    by (simp add: fetch_run_def)
  show "aborted (fetch_run JSON_parse (evs @ [FTimer]))"
    using t by (simp add: step reject_def)
  show "result (fetch_run JSON_parse (evs @ [FTimer])) = Rejected ''Request timeout''"
    using t h by (simp add: step reject_def settle_def)
qed

lemma parse_release:
  "parse_examples (concat [body_release])
     = Inr (JObj [(''tag_name'', JStr ''v1.4.2''), (''name'', JStr ''Redmine 1.4.2''),
                  (''published_at'', JStr ''2024-05-01T08:00:00Z''), (''body'', JStr ''Fixes'')])"
  by (simp add: parse_examples_def)

theorem fetchLatestRelease_outcomes_witness:
  "parse_examples (concat [body_release])
     = Inr (JObj [(''tag_name'', JStr ''v1.4.2''), (''name'', JStr ''Redmine 1.4.2''),
                  (''published_at'', JStr ''2024-05-01T08:00:00Z''), (''body'', JStr ''Fixes'')])
   \<and> strip_v ''v1.4.2'' = ''1.4.2''
   \<and> result (fetch_run parse_examples (answered 200 [body_release]))
       = Resolved (JObj [(''version'', JStr ''1.4.2''),
                         (''releaseDate'', JStr ''2024-05-01T08:00:00Z''),
                         (''releaseNotes'', JStr ''Fixes''),
                         (''releaseName'', JStr ''Redmine 1.4.2'')])
   \<and> (503 :: nat) \<noteq> 200 \<and> (503 :: nat) \<noteq> 404
   \<and> result (fetch_run parse_examples (answered 503 [body_html]))
       = Rejected ''GitHub API error: 503''
   \<and> parse_examples (concat [body_html]) = Inl ''Unexpected token < in JSON at position 0''
   \<and> result (fetch_run parse_examples (answered 200 [body_html]))
       = Rejected ''Unexpected token < in JSON at position 0''
   \<and> result (fetch_run parse_examples (answered 404 [body_html])) = Rejected ''No releases found''
   \<and> FTimer \<notin> set [FResponse 200, FData ''{'']
   \<and> result (fetch_run parse_examples [FResponse 200, FData ''{'']) = Pending
   \<and> aborted (fetch_run parse_examples ([FResponse 200, FData ''{''] @ [FTimer]))
   \<and> result (fetch_run parse_examples ([FResponse 200, FData ''{''] @ [FTimer]))
       = Rejected ''Request timeout''"
proof -
  have p: "result (fetch_run parse_examples [FResponse 200, FData ''{'']) = Pending"
    by (simp add: fetch_run_def fetchLatestReleaseFromGitHub_def)
  have n: "showNat 503 = ''503''"
    by (simp add: showNat.simps digit_char_def)
  note t1 = fetchLatestRelease_outcomes [of parse_examples "[body_release]"
      "[(''tag_name'', JStr ''v1.4.2''), (''name'', JStr ''Redmine 1.4.2''),
        (''published_at'', JStr ''2024-05-01T08:00:00Z''), (''body'', JStr ''Fixes'')]"
      "''v1.4.2''" "JStr ''2024-05-01T08:00:00Z''" _ 503 "[FResponse 200, FData ''{'']"]
  have a: "result (fetch_run parse_examples (answered 200 [body_release]))
       = Resolved (JObj [(''version'', JStr ''1.4.2''),
                         (''releaseDate'', JStr ''2024-05-01T08:00:00Z''),
                         (''releaseNotes'', JStr ''Fixes''),
                         (''releaseName'', JStr ''Redmine 1.4.2'')])"
    using t1 parse_release by (simp add: or_else_def)
  note t2 = fetchLatestRelease_outcomes [of parse_examples "[body_html]" _ _ _ _ 503
      "[FResponse 200, FData ''{'']"]
  have b: "result (fetch_run parse_examples (answered 503 [body_html]))
       = Rejected ''GitHub API error: 503''"
    using t2 n by simp
  have h: "parse_examples (concat [body_html]) = Inl ''Unexpected token < in JSON at position 0''"
    by (simp add: parse_examples_def body_html_def body_release_def body_tag_v_def)
  note t3 = fetchLatestRelease_outcomes [of parse_examples "[body_html]" _ _ _
      "''Unexpected token < in JSON at position 0''" 503 "[FResponse 200, FData ''{'']"]
  have d: "result (fetch_run parse_examples (answered 200 [body_html]))
       = Rejected ''Unexpected token < in JSON at position 0''"
    "result (fetch_run parse_examples (answered 404 [body_html])) = Rejected ''No releases found''"
    using t3 h by simp_all
  have c: "aborted (fetch_run parse_examples ([FResponse 200, FData ''{''] @ [FTimer]))
     \<and> result (fetch_run parse_examples ([FResponse 200, FData ''{''] @ [FTimer]))
       = Rejected ''Request timeout''"
    using t2 p by simp
  show ?thesis
    using parse_release a b c d h p by simp
qed

text \<open>
  The claim as stated fails for status 200: a body that is not JSON makes the promise
  reject, and a release whose tag is just \<open>v\<close> resolves with the release name as the
  version, not with the stripped tag.
\<close>

theorem fetchLatestRelease_200_without_bare_tag:
  "result (fetch_run parse_examples (answered 200 [body_html]))
     = Rejected ''Unexpected token < in JSON at position 0''
   \<and> parse_examples body_tag_v
       = Inr (JObj [(''tag_name'', JStr ''v''), (''name'', JStr ''Nightly''),
                    (''published_at'', JStr ''2024-01-01T00:00:00Z'')])
   \<and> result (fetch_run parse_examples (answered 200 [body_tag_v]))
       = Resolved (JObj [(''version'', JStr ''Nightly''),
                         (''releaseDate'', JStr ''2024-01-01T00:00:00Z''),
                         (''releaseNotes'', JStr []),
                         (''releaseName'', JStr ''Nightly'')])"
proof -
  have h: "parse_examples body_html = Inl ''Unexpected token < in JSON at position 0''"
    by (simp add: parse_examples_def body_html_def body_release_def body_tag_v_def)
  have v: "parse_examples body_tag_v
       = Inr (JObj [(''tag_name'', JStr ''v''), (''name'', JStr ''Nightly''),
                    (''published_at'', JStr ''2024-01-01T00:00:00Z'')])"
    by (simp add: parse_examples_def body_release_def body_tag_v_def)
  show ?thesis
    by (simp add: fetch_answered on_end_def release_info_def bare_tag_def or_else_def resolve_def
        reject_def settle_def fetchLatestReleaseFromGitHub_def h v)
qed

end
